theory Spec2Isabelle
  imports Complex_Main "HOL-Library.Multiset"
begin

section \<open>Data model of script.js\<close>

text \<open>
  The script computes with JavaScript numbers, IEEE doubles. The model of the barge
  computes with \<^typ>\<open>real\<close>: finite values with exact arithmetic, as the
  specification's "positive reals". Two functions, \<^verbatim>\<open>calculateDraft\<close> and the loop
  of \<^verbatim>\<open>calculateCenterFlotation\<close>, are modelled a second time in double arithmetic
  (rounding to nearest, ties to even, overflow to infinity), because what the
  specification says of them depends on rounding and overflow. The one place where the script tests
  for NaN, the result of \<^verbatim>\<open>parseFloat\<close> on a form field, is modelled by
  \<^typ>\<open>real option\<close> with \<^term>\<open>None\<close> for NaN. \<^verbatim>\<open>Math.cos\<close> and
  \<^verbatim>\<open>Math.sin\<close> are \<^term>\<open>cos\<close> and \<^term>\<open>sin\<close>.

  Reading a property of \<^verbatim>\<open>undefined\<close> (the element 0 of an empty array) throws a
  TypeError; every function that can do so returns \<open>error + state\<close>.
\<close>

datatype error = TypeError

text \<open>
  \<^verbatim>\<open>THREE.Vector3\<close>, \<^verbatim>\<open>THREE.Euler\<close> and the object literal
  \<^verbatim>\<open>{ x: .., y: .., z: .. }\<close>: the three coordinates \<^verbatim>\<open>x\<close>, \<^verbatim>\<open>y\<close>,
  \<^verbatim>\<open>z\<close>.
\<close>

record Vector3 =
  vec_x :: real
  vec_y :: real
  vec_z :: real

definition Vector3_new :: "real \<Rightarrow> real \<Rightarrow> real \<Rightarrow> Vector3" where
  "Vector3_new a b c = \<lparr>vec_x = a, vec_y = b, vec_z = c\<rparr>"

text \<open>
  \<^verbatim>\<open>Float\<close> and \<^verbatim>\<open>Item\<close> both carry \<^verbatim>\<open>width\<close>, \<^verbatim>\<open>height\<close>,
  \<^verbatim>\<open>depth\<close> and a mesh. Of the mesh the model keeps \<^verbatim>\<open>mesh.position\<close> and
  \<^verbatim>\<open>mesh.rotation\<close>; colour, geometry and material only feed the renderer.
\<close>

record Box =
  width :: real
  height :: real
  depth :: real
  position :: Vector3
  rotation :: Vector3

record Float = Box +
  id' :: nat
  weight :: real
  waterDensity :: real
  restPosition :: Vector3

type_synonym Item = Box

text \<open>
  \<^verbatim>\<open>new Float(id)\<close>. A new mesh stands at the origin, unrotated. The constructor
  leaves \<^verbatim>\<open>restPosition\<close> unset; \<^verbatim>\<open>addFloat\<close>, the only caller, assigns it
  before the float is stored, so the value given here is never read.
\<close>

definition Float_new :: "nat \<Rightarrow> Float" where
  "Float_new i =
     \<lparr>width = 20, height = 7, depth = 10,
      position = Vector3_new 0 0 0, rotation = Vector3_new 0 0 0,
      id' = i, weight = 20000, waterDensity = 62.4,
      restPosition = Vector3_new 0 0 0\<rparr>"

definition Item_new :: "Item" where
  "Item_new =
     \<lparr>width = 2, height = 2, depth = 2,
      position = Vector3_new 0 0 0, rotation = Vector3_new 0 0 0\<rparr>"

definition calculateDraft :: "Float \<Rightarrow> real" where
  "calculateDraft f =
     (let volumeNeeded = weight f / waterDensity f;
          draft = volumeNeeded / (width f * depth f)
      in draft)"

record Barge =
  floats :: "Float list"
  items :: "Item list"
  nextFloatId :: nat
  centerFlotation :: Vector3
  tiltX :: real
  tiltZ :: real

section \<open>The operations of Barge\<close>

text \<open>
  The loop of \<^verbatim>\<open>calculateCenterFlotation\<close> with its three accumulators
  \<^verbatim>\<open>totalArea\<close>, \<^verbatim>\<open>weightedX\<close>, \<^verbatim>\<open>weightedZ\<close>.
\<close>

fun centerLoop :: "Float list \<Rightarrow> real \<times> real \<times> real \<Rightarrow> real \<times> real \<times> real" where
  "centerLoop [] acc = acc"
| "centerLoop (float # rest) (totalArea, weightedX, weightedZ) =
     (let area = width float * depth float;
          pos = position float
      in centerLoop rest
           (totalArea + area, weightedX + vec_x pos * area, weightedZ + vec_z pos * area))"

definition calculateCenterFlotation :: "Barge \<Rightarrow> Barge" where
  "calculateCenterFlotation b =
     (if length (floats b) = 0 then b
      else (case centerLoop (floats b) (0, 0, 0) of
              (totalArea, weightedX, weightedZ) \<Rightarrow>
                b\<lparr>centerFlotation := Vector3_new (weightedX / totalArea) 0 (weightedZ / totalArea)\<rparr>))"

definition calculateArea :: "Barge \<Rightarrow> real" where
  "calculateArea b = fold (\<lambda>float totalArea. totalArea + width float * depth float) (floats b) 0"

text \<open>
  \<^verbatim>\<open>addFloat\<close>: the new float is placed from the current position of the last
  float, the placement is stored as position and as rest position, the float is appended
  and the centre recomputed. The scene graph is not modelled.
\<close>

definition addFloat :: "Barge \<Rightarrow> Barge" where
  "addFloat b =
     (let float = Float_new (nextFloatId b);
          b1 = b\<lparr>nextFloatId := nextFloatId b + 1\<rparr>;
          draft = calculateDraft float;
          yPosition = - draft + height float / 2;
          (xPosition, zPosition) =
            (if length (floats b1) > 0
             then (let lastFloat = last (floats b1);
                       lastPos = position lastFloat
                   in (vec_x lastPos + width lastFloat / 2 + width float / 2, vec_z lastPos))
             else (0, 0));
          float1 = float\<lparr>position := Vector3_new xPosition yPosition zPosition,
                         restPosition := Vector3_new xPosition yPosition zPosition\<rparr>
      in calculateCenterFlotation (b1\<lparr>floats := floats b1 @ [float1]\<rparr>))"

text \<open>
  \<^verbatim>\<open>addItem\<close> reads \<^verbatim>\<open>this.floats[0]\<close> without a guard: on an empty list
  \<^verbatim>\<open>float.getPosition()\<close> throws.
\<close>

definition addItem :: "Barge \<Rightarrow> error + Barge" where
  "addItem b =
     (case floats b of
        [] \<Rightarrow> Inl TypeError
      | float # _ \<Rightarrow>
          (let item = Item_new;
               initialY = vec_y (position float) + height float / 2 + height item / 2;
               item1 = item\<lparr>position :=
                         Vector3_new (vec_x (centerFlotation b)) initialY (vec_z (centerFlotation b))\<rparr>
           in Inr (b\<lparr>items := items b @ [item1]\<rparr>)))"

definition calculateTilt :: "Barge \<Rightarrow> Barge" where
  "calculateTilt b =
     (if length (items b) > 0
      then (let item = items b ! 0;
                itemPos = position item;
                offsetX = vec_x itemPos - vec_x (centerFlotation b);
                offsetZ = vec_z itemPos - vec_z (centerFlotation b);
                maxTilt = 0.05
            in b\<lparr>tiltX := - (offsetZ / 5) * maxTilt, tiltZ := (offsetX / 10) * maxTilt\<rparr>)
      else b)"

text \<open>The body of the loop of \<^verbatim>\<open>applyTiltToFloats\<close>, for one float.\<close>

definition applyTiltToFloat :: "Barge \<Rightarrow> Float \<Rightarrow> Float" where
  "applyTiltToFloat b float =
     (let restX = vec_x (restPosition float);
          restY = vec_y (restPosition float);
          restZ = vec_z (restPosition float);
          relativeX = restX - vec_x (centerFlotation b);
          relativeZ = restZ - vec_z (centerFlotation b);
          relativeY = restY - vec_y (centerFlotation b);
          cosX = cos (- tiltX b);
          sinX = sin (- tiltX b);
          cosZ = cos (- tiltZ b);
          sinZ = sin (- tiltZ b);
          tempX = relativeX * cosZ - relativeY * sinZ;
          tempY = relativeX * sinZ + relativeY * cosZ;
          tempZ = relativeZ;
          newY = tempY * cosX - tempZ * sinX;
          newZ = tempY * sinX + tempZ * cosX;
          newX = tempX
      in float\<lparr>position := Vector3_new (vec_x (centerFlotation b) + newX)
                                          (vec_y (centerFlotation b) + newY)
                                          (vec_z (centerFlotation b) + newZ),
                rotation := (rotation float)\<lparr>vec_x := - tiltX b, vec_z := - tiltZ b\<rparr>\<rparr>)"

definition applyTiltToFloats :: "Barge \<Rightarrow> Barge" where
  "applyTiltToFloats b = b\<lparr>floats := map (applyTiltToFloat b) (floats b)\<rparr>"

text \<open>
  The body of the loop of \<^verbatim>\<open>updateItemPositions\<close>, for one item. It reads
  \<^verbatim>\<open>this.floats[0].restPosition\<close> without a guard.
\<close>

definition updateItemPosition :: "Barge \<Rightarrow> Item \<Rightarrow> error + Item" where
  "updateItemPosition b item =
     (case floats b of
        [] \<Rightarrow> Inl TypeError
      | float # _ \<Rightarrow>
          (let itemPos = position item;
               centerSurfaceY = vec_y (restPosition float) + height float / 2;
               relativeX = vec_x itemPos - vec_x (centerFlotation b);
               relativeZ = vec_z itemPos - vec_z (centerFlotation b);
               surfacePoint = Vector3_new relativeX (centerSurfaceY - vec_y (centerFlotation b)) relativeZ;
               cosX = cos (- tiltX b);
               sinX = sin (- tiltX b);
               cosZ = cos (- tiltZ b);
               sinZ = sin (- tiltZ b);
               y1 = vec_y surfacePoint * cosX - vec_z surfacePoint * sinX;
               z1 = vec_y surfacePoint * sinX + vec_z surfacePoint * cosX;
               x1 = vec_x surfacePoint;
               x2 = x1 * cosZ - y1 * sinZ;
               y2 = x1 * sinZ + y1 * cosZ;
               z2 = z1;
               rotatedSurfaceY = vec_y (centerFlotation b) + y2
           in Inr (item\<lparr>position := (position item)\<lparr>vec_y := rotatedSurfaceY + height item / 2\<rparr>,
                        rotation := (rotation item)\<lparr>vec_x := - tiltX b, vec_z := - tiltZ b\<rparr>\<rparr>)))"

fun updateItems :: "Barge \<Rightarrow> Item list \<Rightarrow> error + Item list" where
  "updateItems b [] = Inr []"
| "updateItems b (item # rest) =
     (case updateItemPosition b item of
        Inl e \<Rightarrow> Inl e
      | Inr item1 \<Rightarrow>
          (case updateItems b rest of
             Inl e \<Rightarrow> Inl e
           | Inr rest1 \<Rightarrow> Inr (item1 # rest1)))"

definition updateItemPositions :: "Barge \<Rightarrow> error + Barge" where
  "updateItemPositions b =
     (case updateItems b (items b) of
        Inl e \<Rightarrow> Inl e
      | Inr its \<Rightarrow> Inr (b\<lparr>items := its\<rparr>))"

definition update :: "Barge \<Rightarrow> error + Barge" where
  "update b = updateItemPositions (applyTiltToFloats (calculateTilt (calculateCenterFlotation b)))"

text \<open>
  \<^verbatim>\<open>moveItem\<close>. The index is any integer; \<^verbatim>\<open>this.items[itemIndex]\<close> is
  \<^verbatim>\<open>undefined\<close> for a negative one, and writing its mesh position throws, as does
  \<^verbatim>\<open>mainFloat.width\<close> without a float 0.
\<close>

definition moveItem :: "int \<Rightarrow> real \<Rightarrow> real \<Rightarrow> Barge \<Rightarrow> error + Barge" where
  "moveItem itemIndex x z b =
     (if itemIndex < int (length (items b))
      then (case floats b of
              [] \<Rightarrow> Inl TypeError
            | mainFloat # _ \<Rightarrow>
                if itemIndex < 0 then Inl TypeError
                else (let item = items b ! nat itemIndex;
                          halfWidth = width mainFloat / 2 - 1;
                          halfDepth = depth mainFloat / 2 - 1;
                          constrainedX = max (- halfWidth) (min halfWidth x);
                          constrainedZ = max (- halfDepth) (min halfDepth z);
                          item1 = item\<lparr>position :=
                                    (position item)\<lparr>vec_x := constrainedX, vec_z := constrainedZ\<rparr>\<rparr>
                      in update (b\<lparr>items := (items b)[nat itemIndex := item1]\<rparr>)))
      else Inr b)"

text \<open>
  \<^verbatim>\<open>new Barge(scene)\<close>: the empty assembly, then \<^verbatim>\<open>addFloat\<close> and
  \<^verbatim>\<open>addItem\<close>.
\<close>

definition Barge_empty :: "Barge" where
  "Barge_empty =
     \<lparr>floats = [], items = [], nextFloatId = 1,
      centerFlotation = Vector3_new 0 0 0, tiltX = 0, tiltZ = 0\<rparr>"

definition Barge_new :: "error + Barge" where
  "Barge_new = addItem (addFloat Barge_empty)"

text \<open>
  The property panel of float 0. \<^verbatim>\<open>updateFloatProperties\<close> reads seven form
  fields through \<^verbatim>\<open>parseFloat\<close> (\<^term>\<open>None\<close> is NaN) and asks whether the
  Y field has the focus. The invisible drag plane and the text written back into the form
  are not modelled.
\<close>

record FloatInputs =
  floatLength :: "real option"
  floatWidth :: "real option"
  floatHeight :: "real option"
  floatWeight :: "real option"
  floatPosX :: "real option"
  floatPosY :: "real option"
  floatPosZ :: "real option"
  posYActive :: bool

text \<open>
  The four guarded assignments
  \<^verbatim>\<open>if (!isNaN(v) && v > 0) { float.attribute = v; recalculateY = true; }\<close>,
  each on the float and the flag \<^verbatim>\<open>recalculateY\<close>.
\<close>

definition editWidth :: "real option \<Rightarrow> Float \<times> bool \<Rightarrow> Float \<times> bool" where
  "editWidth newLength s =
     (case s of (float, recalculateY) \<Rightarrow>
        (case newLength of
           Some v \<Rightarrow> if v > 0 then (float\<lparr>width := v\<rparr>, True) else (float, recalculateY)
         | None \<Rightarrow> (float, recalculateY)))"

definition editDepth :: "real option \<Rightarrow> Float \<times> bool \<Rightarrow> Float \<times> bool" where
  "editDepth newWidth s =
     (case s of (float, recalculateY) \<Rightarrow>
        (case newWidth of
           Some v \<Rightarrow> if v > 0 then (float\<lparr>depth := v\<rparr>, True) else (float, recalculateY)
         | None \<Rightarrow> (float, recalculateY)))"

definition editHeight :: "real option \<Rightarrow> Float \<times> bool \<Rightarrow> Float \<times> bool" where
  "editHeight newHeight s =
     (case s of (float, recalculateY) \<Rightarrow>
        (case newHeight of
           Some v \<Rightarrow> if v > 0 then (float\<lparr>height := v\<rparr>, True) else (float, recalculateY)
         | None \<Rightarrow> (float, recalculateY)))"

definition editWeight :: "real option \<Rightarrow> Float \<times> bool \<Rightarrow> Float \<times> bool" where
  "editWeight newWeight s =
     (case s of (float, recalculateY) \<Rightarrow>
        (case newWeight of
           Some v \<Rightarrow> if v > 0 then (float\<lparr>weight := v\<rparr>, True) else (float, recalculateY)
         | None \<Rightarrow> (float, recalculateY)))"

text \<open>
  \<^verbatim>\<open>if (!isNaN(newPosX)) float.mesh.position.x = newPosX\<close>, the same for z, and the
  branch that sets \<^verbatim>\<open>float.mesh.position.y\<close>.
\<close>

definition editPositionX :: "real option \<Rightarrow> Float \<Rightarrow> Float" where
  "editPositionX newPosX float =
     (case newPosX of
        Some v \<Rightarrow> float\<lparr>position := (position float)\<lparr>vec_x := v\<rparr>\<rparr>
      | None \<Rightarrow> float)"

definition editPositionZ :: "real option \<Rightarrow> Float \<Rightarrow> Float" where
  "editPositionZ newPosZ float =
     (case newPosZ of
        Some v \<Rightarrow> float\<lparr>position := (position float)\<lparr>vec_z := v\<rparr>\<rparr>
      | None \<Rightarrow> float)"

definition editPositionY :: "bool \<Rightarrow> bool \<Rightarrow> real option \<Rightarrow> Float \<Rightarrow> Float" where
  "editPositionY recalculateY manualYChange posY float =
     (if recalculateY \<and> \<not> manualYChange
      then (let draft = calculateDraft float;
                yPosition = - draft + height float / 2
            in float\<lparr>position := (position float)\<lparr>vec_y := yPosition\<rparr>\<rparr>)
      else if manualYChange
      then (case posY of
              Some newPosY \<Rightarrow> float\<lparr>position := (position float)\<lparr>vec_y := newPosY\<rparr>\<rparr>
            | None \<Rightarrow> float)
      else float)"

definition updateFloatProperties :: "FloatInputs \<Rightarrow> Barge \<Rightarrow> error + Barge" where
  "updateFloatProperties inp b =
     (case floats b of
        [] \<Rightarrow> Inl TypeError
      | float # rest \<Rightarrow>
          (let manualYChange = posYActive inp;
               (float1, recalculateY) =
                 editWeight (floatWeight inp)
                   (editHeight (floatHeight inp)
                      (editDepth (floatWidth inp)
                         (editWidth (floatLength inp) (float, False))));
               float2 = editPositionZ (floatPosZ inp) (editPositionX (floatPosX inp) float1);
               float3 = editPositionY recalculateY manualYChange (floatPosY inp) float2;
               b1 = calculateCenterFlotation (b\<lparr>floats := float3 # rest\<rparr>)
           in update b1))"

text \<open>
  Statements run one after the other, and an exception ends the run: the sequencing of
  two calls where the first may throw.
\<close>

definition andThen :: "error + 'a \<Rightarrow> ('a \<Rightarrow> error + 'b) \<Rightarrow> error + 'b" where
  "andThen r f = (case r of Inl e \<Rightarrow> Inl e | Inr a \<Rightarrow> f a)"

text \<open>
  What the page can do to its barge: every method of \<^verbatim>\<open>Barge\<close> that returns
  normally, and an edit in the property panel. A call that throws is no step: no method
  writes to the barge before the point where it can throw, as long as float 0 exists.
\<close>

inductive step :: "Barge \<Rightarrow> Barge \<Rightarrow> bool" where
  step_calculateCenterFlotation: "step b (calculateCenterFlotation b)"
| step_addFloat: "step b (addFloat b)"
| step_addItem: "addItem b = Inr b' \<Longrightarrow> step b b'"
| step_calculateTilt: "step b (calculateTilt b)"
| step_applyTiltToFloats: "step b (applyTiltToFloats b)"
| step_updateItemPositions: "updateItemPositions b = Inr b' \<Longrightarrow> step b b'"
| step_update: "update b = Inr b' \<Longrightarrow> step b b'"
| step_moveItem: "moveItem itemIndex x z b = Inr b' \<Longrightarrow> step b b'"
| step_updateFloatProperties: "updateFloatProperties inp b = Inr b' \<Longrightarrow> step b b'"

inductive reachable :: "Barge \<Rightarrow> bool" where
  reachable_new: "Barge_new = Inr b \<Longrightarrow> reachable b"
| reachable_step: "reachable b \<Longrightarrow> step b b' \<Longrightarrow> reachable b'"

section \<open>Notions of the specification\<close>

text \<open>
  The specification speaks of a rotation about the Z-tilt axis in the X/Y plane, of one
  about the X-tilt axis in the Y/Z plane, and of positions relative to the centre. These
  definitions follow its words; the theorems compare the code with them.
\<close>

definition rotateAboutZ :: "real \<Rightarrow> Vector3 \<Rightarrow> Vector3" where
  "rotateAboutZ a p =
     Vector3_new (vec_x p * cos a - vec_y p * sin a) (vec_x p * sin a + vec_y p * cos a) (vec_z p)"

definition rotateAboutX :: "real \<Rightarrow> Vector3 \<Rightarrow> Vector3" where
  "rotateAboutX a p =
     Vector3_new (vec_x p) (vec_y p * cos a - vec_z p * sin a) (vec_y p * sin a + vec_z p * cos a)"

definition vec_add :: "Vector3 \<Rightarrow> Vector3 \<Rightarrow> Vector3" where
  "vec_add p q = Vector3_new (vec_x p + vec_x q) (vec_y p + vec_y q) (vec_z p + vec_z q)"

definition vec_sub :: "Vector3 \<Rightarrow> Vector3 \<Rightarrow> Vector3" where
  "vec_sub p q = Vector3_new (vec_x p - vec_x q) (vec_y p - vec_y q) (vec_z p - vec_z q)"

text \<open>The footprint area of a float, and its two edges along the x-axis.\<close>

definition footprintArea :: "Float \<Rightarrow> real" where
  "footprintArea f = width f * depth f"




text \<open>A form value that is not a number or not positive.\<close>

definition nonPositiveOrNaN :: "real option \<Rightarrow> bool" where
  "nonPositiveOrNaN v = (case v of None \<Rightarrow> True | Some r \<Rightarrow> r \<le> 0)"

text \<open>
  The value of an attribute after the guarded assignment: the new value when it is a
  positive number, the old one otherwise.
\<close>

definition accepted :: "real option \<Rightarrow> real \<Rightarrow> real" where
  "accepted v old = (case v of Some n \<Rightarrow> if n > 0 then n else old | None \<Rightarrow> old)"

text \<open>A float whose dimensions, weight and water density are positive.\<close>

definition positiveFloat :: "Float \<Rightarrow> bool" where
  "positiveFloat f =
     (0 < width f \<and> 0 < height f \<and> 0 < depth f \<and> 0 < weight f \<and> 0 < waterDensity f)"

section \<open>Double arithmetic\<close>

text \<open>
  A JavaScript number: a finite double, an infinity or NaN. Zero has no sign here; where
  the sign of a zero would decide a result, the zero counts as \<open>+0\<close>.
\<close>

datatype jsnum = Num real | PosInf | NegInf | NaN

text \<open>Rounding to the nearest integer, a tie to the even one.\<close>

definition roundHalfEven :: "real \<Rightarrow> int" where
  "roundHalfEven y =
     (let f = \<lfloor>y\<rfloor>; d = y - of_int f
      in if d < 1 / 2 then f else if 1 / 2 < d then f + 1 else if even f then f else f + 1)"

text \<open>
  The double nearest to a real: 53 significant bits, the exponent at least -1022
  (subnormal numbers below), a tie to the even significand, and infinity from
  \<open>2 ^ 1024\<close> on.
\<close>

definition toDouble :: "real \<Rightarrow> jsnum" where
  "toDouble x =
     (if x = 0 then Num 0
      else (let e = max \<lfloor>log 2 \<bar>x\<bar>\<rfloor> (- 1022);
                q = 2 powr of_int (e - 52);
                r = of_int (roundHalfEven (x / q)) * q
            in if 2 ^ 1024 \<le> r then PosInf
               else if r \<le> - (2 ^ 1024) then NegInf
               else Num r))"

text \<open>The operators \<^verbatim>\<open>+\<close>, \<^verbatim>\<open>*\<close> and \<^verbatim>\<open>/\<close> on numbers.\<close>

fun jsadd :: "jsnum \<Rightarrow> jsnum \<Rightarrow> jsnum" where
  "jsadd (Num a) (Num b) = toDouble (a + b)"
| "jsadd NaN _ = NaN"
| "jsadd _ NaN = NaN"
| "jsadd PosInf NegInf = NaN"
| "jsadd NegInf PosInf = NaN"
| "jsadd PosInf _ = PosInf"
| "jsadd _ PosInf = PosInf"
| "jsadd NegInf _ = NegInf"
| "jsadd _ NegInf = NegInf"

fun jsmul :: "jsnum \<Rightarrow> jsnum \<Rightarrow> jsnum" where
  "jsmul (Num a) (Num b) = toDouble (a * b)"
| "jsmul NaN _ = NaN"
| "jsmul _ NaN = NaN"
| "jsmul (Num a) PosInf = (if a = 0 then NaN else if 0 < a then PosInf else NegInf)"
| "jsmul (Num a) NegInf = (if a = 0 then NaN else if 0 < a then NegInf else PosInf)"
| "jsmul PosInf (Num b) = (if b = 0 then NaN else if 0 < b then PosInf else NegInf)"
| "jsmul NegInf (Num b) = (if b = 0 then NaN else if 0 < b then NegInf else PosInf)"
| "jsmul PosInf PosInf = PosInf"
| "jsmul NegInf NegInf = PosInf"
| "jsmul PosInf NegInf = NegInf"
| "jsmul NegInf PosInf = NegInf"

fun jsdiv :: "jsnum \<Rightarrow> jsnum \<Rightarrow> jsnum" where
  "jsdiv (Num a) (Num b) =
     (if b = 0 then (if a = 0 then NaN else if 0 < a then PosInf else NegInf)
      else toDouble (a / b))"
| "jsdiv NaN _ = NaN"
| "jsdiv _ NaN = NaN"
| "jsdiv (Num a) PosInf = Num 0"
| "jsdiv (Num a) NegInf = Num 0"
| "jsdiv PosInf (Num b) = (if 0 \<le> b then PosInf else NegInf)"
| "jsdiv NegInf (Num b) = (if 0 \<le> b then NegInf else PosInf)"
| "jsdiv _ _ = NaN"

text \<open>
  \<^verbatim>\<open>calculateDraft\<close> and the loop and the quotients of
  \<^verbatim>\<open>calculateCenterFlotation\<close> in double arithmetic, on floats whose attributes
  and coordinates are doubles. \<open>centerFlotation_double\<close> is the centre the method
  stores, \<^term>\<open>None\<close> when it returns early and keeps the old one.
\<close>

definition calculateDraft_double :: "Float \<Rightarrow> jsnum" where
  "calculateDraft_double f =
     (let volumeNeeded = jsdiv (Num (weight f)) (Num (waterDensity f));
          draft = jsdiv volumeNeeded (jsmul (Num (width f)) (Num (depth f)))
      in draft)"

fun centerLoop_double :: "Float list \<Rightarrow> jsnum \<times> jsnum \<times> jsnum \<Rightarrow> jsnum \<times> jsnum \<times> jsnum" where
  "centerLoop_double [] acc = acc"
| "centerLoop_double (float # rest) (totalArea, weightedX, weightedZ) =
     (let area = jsmul (Num (width float)) (Num (depth float));
          pos = position float
      in centerLoop_double rest
           (jsadd totalArea area,
            jsadd weightedX (jsmul (Num (vec_x pos)) area),
            jsadd weightedZ (jsmul (Num (vec_z pos)) area)))"

definition centerFlotation_double :: "Float list \<Rightarrow> (jsnum \<times> jsnum \<times> jsnum) option" where
  "centerFlotation_double fs =
     (if length fs = 0 then None
      else (case centerLoop_double fs (Num 0, Num 0, Num 0) of
              (totalArea, weightedX, weightedZ) \<Rightarrow>
                Some (jsdiv weightedX totalArea, Num 0, jsdiv weightedZ totalArea)))"

text \<open>
  A range in which a positive real and everything within a factor 4 of it is a normal
  double.
\<close>

definition normalRange :: "real \<Rightarrow> bool" where
  "normalRange x = (2 powr (- 1020) \<le> x \<and> x < 2 powr 1021)"

section \<open>Rounding\<close>

lemma roundHalfEven_near: "\<bar>of_int (roundHalfEven y) - y\<bar> \<le> 1 / 2"
  unfolding roundHalfEven_def Let_def by (auto simp: abs_if) linarith+

lemma roundHalfEven_int: "y \<in> \<int> \<Longrightarrow> of_int (roundHalfEven y) = y"
  unfolding roundHalfEven_def Let_def by (auto elim!: Ints_cases)

lemma roundHalfEven_ge: "of_int n \<le> y \<Longrightarrow> n \<le> roundHalfEven y"
  unfolding roundHalfEven_def Let_def by (auto simp: le_floor_iff) linarith+

lemma exponent_eq:
  assumes "2 powr of_int e \<le> \<bar>x\<bar>" "\<bar>x\<bar> < 2 powr of_int (e + 1)"
  shows "\<lfloor>log 2 \<bar>x\<bar>\<rfloor> = e"
proof -
  have "0 < \<bar>x\<bar>" using assms(1) by (smt (verit) powr_gt_zero)
  then show ?thesis using assms by (simp add: floor_log_eq_powr_iff)
qed

lemma toDouble_eval:
  assumes "2 powr of_int e \<le> \<bar>x\<bar>" "\<bar>x\<bar> < 2 powr of_int (e + 1)" "- 1022 \<le> e"
  shows "toDouble x =
     (let r = of_int (roundHalfEven (x / 2 powr of_int (e - 52))) * 2 powr of_int (e - 52)
      in if 2 ^ 1024 \<le> r then PosInf else if r \<le> - (2 ^ 1024) then NegInf else Num r)"
proof -
  have "x \<noteq> 0" using assms(1) by (smt (verit) powr_gt_zero)
  moreover have "max \<lfloor>log 2 \<bar>x\<bar>\<rfloor> (- 1022) = e"
    using exponent_eq [OF assms(1,2)] assms(3) by simp
  ultimately show ?thesis by (simp add: toDouble_def Let_def)
qed

lemma p1024: "(2::real) powr 1024 = 2 ^ 1024"
  by simp

lemma toDouble_exact:
  assumes "2 powr of_int e \<le> \<bar>x\<bar>" "\<bar>x\<bar> < 2 powr of_int (e + 1)" "- 1022 \<le> e" "e \<le> 1023"
      and "x / 2 powr of_int (e - 52) \<in> \<int>"
  shows "toDouble x = Num x"
proof -
  have r: "of_int (roundHalfEven (x / 2 powr of_int (e - 52))) * 2 powr of_int (e - 52) = x"
    using roundHalfEven_int [OF assms(5)] by simp
  have "(2::real) powr of_int (e + 1) \<le> 2 powr 1024"
    using assms(4) by (intro powr_mono) auto
  then have "\<bar>x\<bar> < 2 powr 1024"
    using assms(2) by (rule less_le_trans [rotated])
  then have "\<bar>x\<bar> < 2 ^ 1024"
    by (simp only: p1024)
  then show ?thesis
    unfolding toDouble_eval [OF assms(1-3)] Let_def r by (simp add: abs_if split: if_splits)
qed

lemma toDouble_pos_eval:
  assumes "0 < x"
  obtains e where "2 powr of_int e \<le> x" "x < 2 powr of_int (e + 1)" "e = \<lfloor>log 2 x\<rfloor>"
  using assms floor_log_eq_powr_iff [of x 2 "\<lfloor>log 2 x\<rfloor>"] by auto

lemma toDouble_overflow:
  assumes "2 ^ 1024 \<le> x"
  shows "toDouble x = PosInf"
proof -
  have x: "0 < x" using assms by (smt (verit) zero_less_power)
  obtain e where e: "2 powr of_int e \<le> x" "x < 2 powr of_int (e + 1)"
    using toDouble_pos_eval [OF x] by blast
  have "(2::real) powr 1024 \<le> x"
    using assms by (simp only: p1024)
  then have "(2::real) powr 1024 < 2 powr of_int (e + 1)"
    using e(2) by (rule le_less_trans)
  from powr_less_cancel [OF this] have e1024: "1024 \<le> e" by simp
  let ?q = "(2::real) powr of_int (e - 52)"
  have q: "0 < ?q" by simp
  have eq: "(2::real) powr of_int e = 2 powr 52 * ?q"
    unfolding powr_add [symmetric] by simp
  have "(2::real) powr 52 \<le> x / ?q"
    using e(1) q unfolding eq by (simp add: field_simps del: powr_numeral)
  then have "of_int (2 ^ 52) \<le> x / ?q" by simp
  then have "2 ^ 52 \<le> roundHalfEven (x / ?q)" by (rule roundHalfEven_ge)
  then have "(2::real) ^ 52 \<le> of_int (roundHalfEven (x / ?q))"
    by (metis of_int_le_iff of_int_numeral of_int_power)
  then have "2 powr 52 * ?q \<le> of_int (roundHalfEven (x / ?q)) * ?q"
    using q by simp
  moreover have "(2::real) powr 1024 \<le> 2 powr of_int e"
    using e1024 by (intro powr_mono) auto
  ultimately have "2 powr 1024 \<le> of_int (roundHalfEven (x / ?q)) * ?q"
    unfolding eq [symmetric] by (rule order_trans [rotated])
  then have "2 ^ 1024 \<le> of_int (roundHalfEven (x / ?q)) * ?q"
    by (simp only: p1024)
  moreover have "\<bar>x\<bar> = x" using x by simp
  ultimately show ?thesis
    using toDouble_eval [of e x] e e1024 by (simp add: Let_def)
qed

lemma toDouble_normal:
  assumes "2 powr (- 1022) \<le> x" "x < 2 powr 1023"
  shows "\<exists>r. toDouble x = Num r \<and> x / 2 \<le> r \<and> r \<le> 2 * x"
proof -
  have x: "0 < x" using assms(1) by (smt (verit) powr_gt_zero)
  obtain e where e: "2 powr of_int e \<le> x" "x < 2 powr of_int (e + 1)"
    using toDouble_pos_eval [OF x] by blast
  have "(2::real) powr (- 1022) < 2 powr of_int (e + 1)"
    using assms(1) e(2) by (rule le_less_trans)
  from powr_less_cancel [OF this] have lo: "- 1022 \<le> e" by simp
  let ?q = "(2::real) powr of_int (e - 52)"
  let ?m = "of_int (roundHalfEven (x / ?q)) :: real"
  have q: "0 < ?q" by simp
  have eq: "(2::real) powr of_int e = 2 powr 52 * ?q"
    unfolding powr_add [symmetric] by simp
  have "(2::real) powr 52 \<le> x / ?q"
    using e(1) q unfolding eq by (simp add: field_simps del: powr_numeral)
  moreover have "(1::real) \<le> 2 powr 52" by simp
  ultimately have y1: "1 \<le> x / ?q" by (rule order_trans [rotated])
  have near: "\<bar>?m - x / ?q\<bar> \<le> 1 / 2" by (rule roundHalfEven_near)
  have lin: "\<And>y m :: real. \<bar>m - y\<bar> \<le> 1 / 2 \<Longrightarrow> 1 \<le> y \<Longrightarrow> y / 2 \<le> m \<and> m \<le> 2 * y"
    by arith
  have m: "x / ?q / 2 \<le> ?m" "?m \<le> 2 * (x / ?q)"
    using lin [OF near y1] by blast+
  have r1: "x / 2 \<le> ?m * ?q"
    using mult_right_mono [OF m(1), of ?q] q by simp
  have r2: "?m * ?q \<le> 2 * x"
    using mult_right_mono [OF m(2), of ?q] q by simp
  have "(2::real) powr 1024 = 2 * 2 powr 1023"
    using powr_add [of 2 1 1023] by (simp del: powr_numeral)
  then have "2 * x < 2 powr 1024" using assms(2) by (simp del: powr_numeral)
  then have "2 * x < 2 ^ 1024" by (simp only: p1024)
  then have "?m * ?q < 2 ^ 1024" "\<not> ?m * ?q \<le> - (2 ^ 1024)"
    using r1 r2 x by linarith+
  moreover have "\<bar>x\<bar> = x" using x by simp
  ultimately have "toDouble x = Num (?m * ?q)"
    using toDouble_eval [of e x] e lo by (simp add: Let_def)
  then show ?thesis using r1 r2 by blast
qed

lemma toDouble_1: "toDouble 1 = Num 1" by (rule toDouble_exact [of 0]) (simp_all add: powr_minus)

lemma toDouble_2: "toDouble 2 = Num 2" by (rule toDouble_exact [of 1]) (simp_all add: powr_minus)

lemma toDouble_3: "toDouble 3 = Num 3" by (rule toDouble_exact [of 1]) (simp_all add: powr_minus)

lemma toDouble_4: "toDouble 4 = Num 4" by (rule toDouble_exact [of 2]) (simp_all add: powr_minus)

lemma toDouble_25: "toDouble 25 = Num 25" by (rule toDouble_exact [of 4]) (simp_all add: powr_minus)

lemma toDouble_53: "toDouble 9007199254740992 = Num 9007199254740992" by (rule toDouble_exact [of 53]) (simp_all add: powr_minus)

lemma toDouble_53b: "toDouble 9007199254740994 = Num 9007199254740994" by (rule toDouble_exact [of 53]) (simp_all add: powr_minus)

lemma toDouble_51: "toDouble 2251799813685248 = Num 2251799813685248" by (rule toDouble_exact [of 51]) (simp_all add: powr_minus)

lemma toDouble_51b: "toDouble (4503599627370497 / 2) = Num (4503599627370497 / 2)" by (rule toDouble_exact [of 51]) (simp_all add: powr_minus)

lemma toDouble_53a: "toDouble 9007199254740993 = Num 9007199254740992"
proof -
  have "roundHalfEven (9007199254740993 / 2) = 4503599627370496"
    by (simp add: roundHalfEven_def Let_def)
  then show ?thesis
    using toDouble_eval [of 53 9007199254740993] by (simp add: Let_def)
qed

lemma toDouble_0: "toDouble 0 = Num 0"
  by (simp add: toDouble_def)

lemma toDouble_10: "toDouble 10 = Num 10" by (rule toDouble_exact [of 3]) (simp_all add: powr_minus)
lemma toDouble_200: "toDouble 200 = Num 200" by (rule toDouble_exact [of 7]) (simp_all add: powr_minus)
lemma toDouble_400: "toDouble 400 = Num 400" by (rule toDouble_exact [of 8]) (simp_all add: powr_minus)
lemma toDouble_4000: "toDouble 4000 = Num 4000" by (rule toDouble_exact [of 11]) (simp_all add: powr_minus)

lemma normalRange_toDouble:
  assumes "2 powr (- 1022) \<le> x" "x < 2 powr 1023"
  obtains r where "toDouble x = Num r" "x / 2 \<le> r" "r \<le> 2 * x" "0 < r"
proof -
  obtain r where r: "toDouble x = Num r" "x / 2 \<le> r" "r \<le> 2 * x"
    using toDouble_normal [OF assms] by blast
  have "0 < x" using assms(1) by (smt (verit) powr_gt_zero)
  then have "0 < r" using r(2) by simp
  then show ?thesis using r that by blast
qed

lemma normalRange_wider:
  assumes "normalRange x" "x / 4 \<le> y" "y \<le> 4 * x"
  shows "2 powr (- 1022) \<le> y" "y < 2 powr 1023"
proof -
  have "(2::real) powr (- 1020) = 2 powr (2 + (- 1022))" by simp
  also have "\<dots> = 2 powr 2 * 2 powr (- 1022)" by (rule powr_add)
  also have "(2::real) powr 2 = 4" by simp
  finally have a: "(2::real) powr (- 1020) = 4 * 2 powr (- 1022)" .
  have "(2::real) powr 1023 = 2 powr (2 + 1021)" by simp
  also have "\<dots> = 2 powr 2 * 2 powr 1021" by (rule powr_add)
  also have "(2::real) powr 2 = 4" by simp
  finally have b: "(2::real) powr 1023 = 4 * 2 powr 1021" .
  show "2 powr (- 1022) \<le> y"
    using assms(1,2) unfolding normalRange_def a by linarith
  show "y < 2 powr 1023"
    using assms(1,3) unfolding normalRange_def b by linarith
qed

lemma calculateDraft_double_normal:
  assumes pos: "0 < weight f" "0 < waterDensity f" "0 < width f" "0 < depth f"
      and n1: "normalRange (weight f / waterDensity f)"
      and n2: "normalRange (width f * depth f)"
      and n3: "normalRange (calculateDraft f)"
  shows "\<exists>r. calculateDraft_double f = Num r \<and> 0 < r \<and>
             calculateDraft f / 8 \<le> r \<and> r \<le> 8 * calculateDraft f"
proof -
  let ?x1 = "weight f / waterDensity f"
  let ?x2 = "width f * depth f"
  have x1: "0 < ?x1" and x2: "0 < ?x2" using pos by simp_all
  have quarter: "\<And>x :: real. 0 < x \<Longrightarrow> x / 4 \<le> x \<and> x \<le> 4 * x" by simp
  have s1: "?x1 / 4 \<le> ?x1" "?x1 \<le> 4 * ?x1" using quarter [OF x1] by blast+
  have s2: "?x2 / 4 \<le> ?x2" "?x2 \<le> 4 * ?x2" using quarter [OF x2] by blast+
  note w1 = normalRange_wider [OF n1 s1]
  note w2 = normalRange_wider [OF n2 s2]
  obtain r1 where r1: "toDouble ?x1 = Num r1" "?x1 / 2 \<le> r1" "r1 \<le> 2 * ?x1" "0 < r1"
    using normalRange_toDouble [OF w1] by blast
  obtain r2 where r2: "toDouble ?x2 = Num r2" "?x2 / 2 \<le> r2" "r2 \<le> 2 * ?x2" "0 < r2"
    using normalRange_toDouble [OF w2] by blast
  have d: "calculateDraft f = ?x1 / ?x2" by (simp add: calculateDraft_def)
  have lo: "calculateDraft f / 4 \<le> r1 / r2"
  proof -
    have "(?x1 / 2) / (2 * ?x2) \<le> r1 / r2"
      using r1(2) r2(3,4) x1 by (intro frac_le) simp_all
    then show ?thesis by (simp add: d)
  qed
  have hi: "r1 / r2 \<le> 4 * calculateDraft f"
  proof -
    have "r1 / r2 \<le> (2 * ?x1) / (?x2 / 2)"
      using r1(3,4) r2(2) x2 by (intro frac_le) simp_all
    then show ?thesis by (simp add: d)
  qed
  note w3 = normalRange_wider [OF n3 lo hi]
  obtain r where r: "toDouble (r1 / r2) = Num r" "r1 / r2 / 2 \<le> r" "r \<le> 2 * (r1 / r2)" "0 < r"
    using normalRange_toDouble [OF w3] by blast
  have "calculateDraft_double f = Num r"
    using pos r1(1,4) r2(1,4) r(1) by (simp add: calculateDraft_double_def)
  moreover have "\<And>c q :: real. c / 4 \<le> q \<Longrightarrow> q / 2 \<le> r \<Longrightarrow> c / 8 \<le> r" by arith
  from this [OF lo r(2)] have "calculateDraft f / 8 \<le> r" .
  moreover have "\<And>c q :: real. q \<le> 4 * c \<Longrightarrow> r \<le> 2 * q \<Longrightarrow> r \<le> 8 * c" by arith
  from this [OF hi r(3)] have "r \<le> 8 * calculateDraft f" .
  ultimately show ?thesis using r(4) by blast
qed

lemma normalRange_I: "1 / 2 ^ 1020 \<le> x \<Longrightarrow> x < 2 ^ 1021 \<Longrightarrow> normalRange x"
  by (simp add: normalRange_def powr_minus inverse_eq_divide)

section \<open>Draft\<close>

text \<open>
  C4, as the code has it. \<^verbatim>\<open>calculateDraft\<close> returns
  (weight / waterDensity) / (width * depth), each operation rounded to a double; it is a
  function of the float's attributes alone and returns a number, no state. In exact
  arithmetic the value is strictly positive when weight, water density, width and depth
  are. In double arithmetic it is a strictly positive number, within a factor 8 of the
  exact value, when moreover weight / waterDensity, width * depth and their quotient lie
  in \<open>normalRange\<close>, so that no operation overflows or underflows.
\<close>

theorem calculateDraft_double_formula:
  "calculateDraft_double f =
     jsdiv (jsdiv (Num (weight f)) (Num (waterDensity f)))
       (jsmul (Num (width f)) (Num (depth f))) \<and>
   calculateDraft f = (weight f / waterDensity f) / (width f * depth f) \<and>
   (0 < weight f \<and> 0 < waterDensity f \<and> 0 < width f \<and> 0 < depth f \<longrightarrow>
      0 < calculateDraft f) \<and>
   (0 < weight f \<and> 0 < waterDensity f \<and> 0 < width f \<and> 0 < depth f \<and>
    normalRange (weight f / waterDensity f) \<and> normalRange (width f * depth f) \<and>
    normalRange ((weight f / waterDensity f) / (width f * depth f)) \<longrightarrow>
      (\<exists>r. calculateDraft_double f = Num r \<and> 0 < r \<and>
            calculateDraft f / 8 \<le> r \<and> r \<le> 8 * calculateDraft f))"
proof (intro conjI impI)
  show "calculateDraft_double f =
     jsdiv (jsdiv (Num (weight f)) (Num (waterDensity f)))
       (jsmul (Num (width f)) (Num (depth f)))"
    by (simp add: calculateDraft_double_def)
  show d: "calculateDraft f = (weight f / waterDensity f) / (width f * depth f)"
    by (simp add: calculateDraft_def)
  show "0 < calculateDraft f"
    if "0 < weight f \<and> 0 < waterDensity f \<and> 0 < width f \<and> 0 < depth f"
    using that by (simp add: calculateDraft_def)
  show "\<exists>r. calculateDraft_double f = Num r \<and> 0 < r \<and>
            calculateDraft f / 8 \<le> r \<and> r \<le> 8 * calculateDraft f"
    if "0 < weight f \<and> 0 < waterDensity f \<and> 0 < width f \<and> 0 < depth f \<and>
    normalRange (weight f / waterDensity f) \<and> normalRange (width f * depth f) \<and>
    normalRange ((weight f / waterDensity f) / (width f * depth f))"
    using that calculateDraft_double_normal [of f] unfolding d by blast
qed

theorem calculateDraft_double_formula_witness:
  "\<exists>r. calculateDraft_double (Float_new 1) = Num r \<and> 0 < r \<and>
        calculateDraft (Float_new 1) = 125 / 78 \<and> 125 / 624 \<le> r \<and> r \<le> 500 / 39"
proof -
  have p: "0 < weight (Float_new 1) \<and> 0 < waterDensity (Float_new 1) \<and>
           0 < width (Float_new 1) \<and> 0 < depth (Float_new 1)"
    by (simp add: Float_new_def)
  have n: "normalRange (weight (Float_new 1) / waterDensity (Float_new 1))"
          "normalRange (width (Float_new 1) * depth (Float_new 1))"
          "normalRange ((weight (Float_new 1) / waterDensity (Float_new 1)) /
                        (width (Float_new 1) * depth (Float_new 1)))"
    by (rule normalRange_I; simp add: Float_new_def)+
  have c: "calculateDraft (Float_new 1) = 125 / 78"
    by (simp add: calculateDraft_def Float_new_def)
  obtain r where "calculateDraft_double (Float_new 1) = Num r" "0 < r"
      "calculateDraft (Float_new 1) / 8 \<le> r" "r \<le> 8 * calculateDraft (Float_new 1)"
    using calculateDraft_double_formula [of "Float_new 1"] p n by blast
  then show ?thesis
    unfolding c by (intro exI [of _ r]) simp
qed

text \<open>
  C4 as stated fails where the product overflows: with width = depth = 2^600, weight 1600
  and water density 64, all strictly positive, width * depth is infinite and the draft
  is 0.
\<close>

theorem calculateDraft_overflow_counterexample:
  "0 < weight ((Float_new 1)\<lparr>width := 2 ^ 600, depth := 2 ^ 600, weight := 1600, waterDensity := 64\<rparr>) \<and>
   0 < waterDensity ((Float_new 1)\<lparr>width := 2 ^ 600, depth := 2 ^ 600, weight := 1600, waterDensity := 64\<rparr>) \<and>
   0 < width ((Float_new 1)\<lparr>width := 2 ^ 600, depth := 2 ^ 600, weight := 1600, waterDensity := 64\<rparr>) \<and>
   0 < depth ((Float_new 1)\<lparr>width := 2 ^ 600, depth := 2 ^ 600, weight := 1600, waterDensity := 64\<rparr>) \<and>
   calculateDraft_double
     ((Float_new 1)\<lparr>width := 2 ^ 600, depth := 2 ^ 600, weight := 1600, waterDensity := 64\<rparr>) = Num 0"
proof -
  have "(2::real) ^ 1024 \<le> 2 ^ 1200"
    by (rule power_increasing) simp_all
  then have m: "toDouble (2 ^ 1200) = PosInf"
    by (rule toDouble_overflow)
  show ?thesis
    using m by (simp add: calculateDraft_double_def toDouble_25)
qed

section \<open>Centre of flotation\<close>

lemma Vector3_new_sel [simp]:
  "vec_x (Vector3_new a b c) = a"
  "vec_y (Vector3_new a b c) = b"
  "vec_z (Vector3_new a b c) = c"
  by (simp_all add: Vector3_new_def)

lemma centerLoop_sums:
  "centerLoop fs (a, wx, wz) =
     (a + sum_list (map footprintArea fs),
      wx + sum_list (map (\<lambda>f. vec_x (position f) * footprintArea f) fs),
      wz + sum_list (map (\<lambda>f. vec_z (position f) * footprintArea f) fs))"
  by (induction fs arbitrary: a wx wz) (simp_all add: footprintArea_def Let_def)

lemma calculateCenterFlotation_eq:
  "floats b \<noteq> [] \<Longrightarrow>
   calculateCenterFlotation b =
     b\<lparr>centerFlotation :=
         Vector3_new
           (sum_list (map (\<lambda>f. vec_x (position f) * footprintArea f) (floats b)) /
            sum_list (map footprintArea (floats b)))
           0
           (sum_list (map (\<lambda>f. vec_z (position f) * footprintArea f) (floats b)) /
            sum_list (map footprintArea (floats b)))\<rparr>"
  by (simp add: calculateCenterFlotation_def centerLoop_sums)

lemma calculateCenterFlotation_empty:
  "floats b = [] \<Longrightarrow> calculateCenterFlotation b = b"
  by (simp add: calculateCenterFlotation_def)

lemma sum_list_mset_cong:
  fixes g :: "'a \<Rightarrow> real"
  assumes "mset xs = mset ys"
  shows "sum_list (map g xs) = sum_list (map g ys)"
proof -
  have "sum_list (map g xs) = sum_mset (image_mset g (mset xs))"
    by (simp add: sum_mset_sum_list [symmetric])
  also have "\<dots> = sum_mset (image_mset g (mset ys))"
    using assms by simp
  also have "\<dots> = sum_list (map g ys)"
    by (simp add: sum_mset_sum_list [symmetric])
  finally show ?thesis .
qed

lemma centerLoop_double_foldl:
  "centerLoop_double fs (a, wx, wz) =
     (foldl jsadd a (map (\<lambda>f. jsmul (Num (width f)) (Num (depth f))) fs),
      foldl jsadd wx
        (map (\<lambda>f. jsmul (Num (vec_x (position f))) (jsmul (Num (width f)) (Num (depth f)))) fs),
      foldl jsadd wz
        (map (\<lambda>f. jsmul (Num (vec_z (position f))) (jsmul (Num (width f)) (Num (depth f)))) fs))"
  by (induction fs arbitrary: a wx wz) (simp_all add: Let_def)

text \<open>
  C7, as the code has it. On a non-empty list of floats \<^verbatim>\<open>calculateCenterFlotation\<close>
  sets center.x to the sum of x * (width * depth) divided by the sum of width * depth,
  center.z likewise and center.y to 0, the sums accumulated from 0 in list order and every
  operation rounded to a double; on the empty list it returns early and the barge is as
  it was. In exact arithmetic, for a non-zero total area, the centre is that quotient of
  sums, nothing else changes, and the centre is the same for every reordering of the
  list.
\<close>

theorem calculateCenterFlotation_double_centroid:
  "(floats b \<noteq> [] \<longrightarrow>
      centerFlotation_double (floats b) =
        Some (jsdiv
                (foldl jsadd (Num 0)
                   (map (\<lambda>f. jsmul (Num (vec_x (position f)))
                                 (jsmul (Num (width f)) (Num (depth f)))) (floats b)))
                (foldl jsadd (Num 0)
                   (map (\<lambda>f. jsmul (Num (width f)) (Num (depth f))) (floats b))),
              Num 0,
              jsdiv
                (foldl jsadd (Num 0)
                   (map (\<lambda>f. jsmul (Num (vec_z (position f)))
                                 (jsmul (Num (width f)) (Num (depth f)))) (floats b)))
                (foldl jsadd (Num 0)
                   (map (\<lambda>f. jsmul (Num (width f)) (Num (depth f))) (floats b))))) \<and>
   (floats b = [] \<longrightarrow> centerFlotation_double (floats b) = None \<and> calculateCenterFlotation b = b) \<and>
   (floats b \<noteq> [] \<and> sum_list (map (\<lambda>f. width f * depth f) (floats b)) \<noteq> 0 \<longrightarrow>
      calculateCenterFlotation b =
        b\<lparr>centerFlotation :=
            Vector3_new
              (sum_list (map (\<lambda>f. vec_x (position f) * (width f * depth f)) (floats b)) /
               sum_list (map (\<lambda>f. width f * depth f) (floats b)))
              0
              (sum_list (map (\<lambda>f. vec_z (position f) * (width f * depth f)) (floats b)) /
               sum_list (map (\<lambda>f. width f * depth f) (floats b)))\<rparr>) \<and>
   (floats b \<noteq> [] \<and> sum_list (map (\<lambda>f. width f * depth f) (floats b)) \<noteq> 0 \<and>
    mset fs = mset (floats b) \<longrightarrow>
      centerFlotation (calculateCenterFlotation (b\<lparr>floats := fs\<rparr>)) =
      centerFlotation (calculateCenterFlotation b))"
proof (intro conjI impI)
  assume "floats b \<noteq> []"
  then show "centerFlotation_double (floats b) =
        Some (jsdiv
                (foldl jsadd (Num 0)
                   (map (\<lambda>f. jsmul (Num (vec_x (position f)))
                                 (jsmul (Num (width f)) (Num (depth f)))) (floats b)))
                (foldl jsadd (Num 0)
                   (map (\<lambda>f. jsmul (Num (width f)) (Num (depth f))) (floats b))),
              Num 0,
              jsdiv
                (foldl jsadd (Num 0)
                   (map (\<lambda>f. jsmul (Num (vec_z (position f)))
                                 (jsmul (Num (width f)) (Num (depth f)))) (floats b)))
                (foldl jsadd (Num 0)
                   (map (\<lambda>f. jsmul (Num (width f)) (Num (depth f))) (floats b))))"
    by (simp add: centerFlotation_double_def centerLoop_double_foldl)
next
  assume "floats b = []"
  then show "centerFlotation_double (floats b) = None"
    by (simp add: centerFlotation_double_def)
next
  assume "floats b = []"
  then show "calculateCenterFlotation b = b" by (rule calculateCenterFlotation_empty)
next
  assume "floats b \<noteq> [] \<and> sum_list (map (\<lambda>f. width f * depth f) (floats b)) \<noteq> 0"
  then show "calculateCenterFlotation b =
        b\<lparr>centerFlotation :=
            Vector3_new
              (sum_list (map (\<lambda>f. vec_x (position f) * (width f * depth f)) (floats b)) /
               sum_list (map (\<lambda>f. width f * depth f) (floats b)))
              0
              (sum_list (map (\<lambda>f. vec_z (position f) * (width f * depth f)) (floats b)) /
               sum_list (map (\<lambda>f. width f * depth f) (floats b)))\<rparr>"
    using calculateCenterFlotation_eq [of b] by (simp add: footprintArea_def [abs_def])
next
  assume a: "floats b \<noteq> [] \<and> sum_list (map (\<lambda>f. width f * depth f) (floats b)) \<noteq> 0 \<and>
    mset fs = mset (floats b)"
  then have ne: "fs \<noteq> []" by auto
  have m: "mset fs = mset (floats b)" using a by simp
  show "centerFlotation (calculateCenterFlotation (b\<lparr>floats := fs\<rparr>)) =
        centerFlotation (calculateCenterFlotation b)"
    using a ne
    by (simp add: calculateCenterFlotation_eq sum_list_mset_cong [OF m])
qed

lemmas model_defs =
  addFloat_def addItem_def Float_new_def Item_new_def calculateDraft_def
  calculateCenterFlotation_def calculateTilt_def applyTiltToFloats_def applyTiltToFloat_def
  updateItemPositions_def updateItemPosition_def update_def moveItem_def
  Barge_empty_def Barge_new_def Vector3_new_def andThen_def Let_def

theorem calculateCenterFlotation_double_centroid_witness:
  "centerFlotation_double (floats (addFloat (addFloat Barge_empty))) =
     Some (Num 10, Num 0, Num 0) \<and>
   calculateCenterFlotation (addFloat (addFloat Barge_empty)) =
     (addFloat (addFloat Barge_empty))\<lparr>centerFlotation := Vector3_new 10 0 0\<rparr> \<and>
   centerFlotation (calculateCenterFlotation
     ((addFloat (addFloat Barge_empty))\<lparr>floats := rev (floats (addFloat (addFloat Barge_empty)))\<rparr>)) =
     Vector3_new 10 0 0 \<and>
   centerFlotation_double (floats Barge_empty) = None \<and>
   calculateCenterFlotation Barge_empty = Barge_empty"
  using calculateCenterFlotation_double_centroid
          [of "addFloat (addFloat Barge_empty)" "rev (floats (addFloat (addFloat Barge_empty)))"]
        calculateCenterFlotation_double_centroid [of Barge_empty "[]"]
  by (simp add: model_defs toDouble_0 toDouble_200 toDouble_400 toDouble_4000 toDouble_10)

text \<open>
  C7 as stated fails in double arithmetic: three floats with areas 1, 1, 2 at
  x = 2^53, 1, 1/2 have the centre x = 2^51 in this order and 2^51 + 1/2 in the order
  second, third, first, because 2^53 + 1 rounds to 2^53.
\<close>

theorem calculateCenterFlotation_reorder_counterexample:
  "centerFlotation_double
     [(Float_new 1)\<lparr>width := 1, depth := 1, position := Vector3_new 9007199254740992 0 0\<rparr>,
      (Float_new 2)\<lparr>width := 1, depth := 1, position := Vector3_new 1 0 0\<rparr>,
      (Float_new 3)\<lparr>width := 2, depth := 1, position := Vector3_new (1 / 2) 0 0\<rparr>] =
     Some (Num 2251799813685248, Num 0, Num 0) \<and>
   centerFlotation_double
     [(Float_new 2)\<lparr>width := 1, depth := 1, position := Vector3_new 1 0 0\<rparr>,
      (Float_new 3)\<lparr>width := 2, depth := 1, position := Vector3_new (1 / 2) 0 0\<rparr>,
      (Float_new 1)\<lparr>width := 1, depth := 1, position := Vector3_new 9007199254740992 0 0\<rparr>] =
     Some (Num (4503599627370497 / 2), Num 0, Num 0) \<and>
   mset [(Float_new 2)\<lparr>width := 1, depth := 1, position := Vector3_new 1 0 0\<rparr>,
      (Float_new 3)\<lparr>width := 2, depth := 1, position := Vector3_new (1 / 2) 0 0\<rparr>,
      (Float_new 1)\<lparr>width := 1, depth := 1, position := Vector3_new 9007199254740992 0 0\<rparr>] =
   mset [(Float_new 1)\<lparr>width := 1, depth := 1, position := Vector3_new 9007199254740992 0 0\<rparr>,
      (Float_new 2)\<lparr>width := 1, depth := 1, position := Vector3_new 1 0 0\<rparr>,
      (Float_new 3)\<lparr>width := 2, depth := 1, position := Vector3_new (1 / 2) 0 0\<rparr>]"
  by (simp add: centerFlotation_double_def Let_def toDouble_0 toDouble_1 toDouble_2 toDouble_3 toDouble_4 toDouble_53 toDouble_53a toDouble_53b toDouble_51 toDouble_51b
        add_mset_commute)

section \<open>Tilt\<close>

lemma calculateTilt_eq:
  "items b = item # rest \<Longrightarrow>
   calculateTilt b =
     b\<lparr>tiltX := - ((vec_z (position item) - vec_z (centerFlotation b)) / 5) * 0.05,
       tiltZ := ((vec_x (position item) - vec_x (centerFlotation b)) / 10) * 0.05\<rparr>"
  by (simp add: calculateTilt_def Let_def)


lemma calculateCenterFlotation_items [simp]:
  "items (calculateCenterFlotation b) = items b"
  by (simp add: calculateCenterFlotation_def split: prod.split)

lemma calculateCenterFlotation_floats [simp]:
  "floats (calculateCenterFlotation b) = floats b"
  by (simp add: calculateCenterFlotation_def split: prod.split)

lemma calculateCenterFlotation_tilt [simp]:
  "tiltX (calculateCenterFlotation b) = tiltX b"
  "tiltZ (calculateCenterFlotation b) = tiltZ b"
  "nextFloatId (calculateCenterFlotation b) = nextFloatId b"
  by (simp_all add: calculateCenterFlotation_def split: prod.split)


text \<open>
  The constructed barge: one float at the origin, one item on it at the centre.
\<close>

lemma addFloat_Barge_empty:
  "addFloat Barge_empty =
     \<lparr>floats = [(Float_new 1)\<lparr>position := Vector3_new 0 (74 / 39) 0,
                               restPosition := Vector3_new 0 (74 / 39) 0\<rparr>],
      items = [], nextFloatId = 2,
      centerFlotation = Vector3_new 0 0 0, tiltX = 0, tiltZ = 0\<rparr>"
  by (simp add: model_defs)

lemma Barge_new_eq:
  "Barge_new =
     Inr \<lparr>floats = [(Float_new 1)\<lparr>position := Vector3_new 0 (74 / 39) 0,
                                   restPosition := Vector3_new 0 (74 / 39) 0\<rparr>],
          items = [Item_new\<lparr>position := Vector3_new 0 (499 / 78) 0\<rparr>], nextFloatId = 2,
          centerFlotation = Vector3_new 0 0 0, tiltX = 0, tiltZ = 0\<rparr>"
  by (simp add: model_defs)


section \<open>Applying the tilt to the floats\<close>

lemma applyTiltToFloat_eq:
  "applyTiltToFloat b f =
     f\<lparr>position :=
         vec_add (centerFlotation b)
           (rotateAboutX (- tiltX b)
              (rotateAboutZ (- tiltZ b) (vec_sub (restPosition f) (centerFlotation b)))),
       rotation := (rotation f)\<lparr>vec_x := - tiltX b, vec_z := - tiltZ b\<rparr>\<rparr>"
  by (simp add: applyTiltToFloat_def rotateAboutX_def rotateAboutZ_def vec_add_def vec_sub_def
        Vector3_new_def Let_def)

lemma applyTiltToFloat_level:
  "tiltX b = 0 \<Longrightarrow> tiltZ b = 0 \<Longrightarrow> position (applyTiltToFloat b f) = restPosition f"
  by (simp add: applyTiltToFloat_def Vector3_new_def Let_def)

text \<open>
  C3. \<^verbatim>\<open>applyTiltToFloats\<close> gives every float the position
  centre + rotateAboutX (rotateAboutZ (rest position - centre)), the rotation about Z
  applied first, with the angles \<open>- tiltZ\<close> and \<open>- tiltX\<close> that the code passes to
  \<^verbatim>\<open>Math.cos\<close> and \<^verbatim>\<open>Math.sin\<close>; it sets the float's rotation about x to
  \<open>- tiltX\<close> and about z to \<open>- tiltZ\<close>; it changes nothing else. With both tilt angles
  0 every float's new position is its rest position, so floats that stood at their rest
  positions stay where they were.
\<close>

theorem applyTiltToFloats_rotation:
  "applyTiltToFloats b =
     b\<lparr>floats :=
         map (\<lambda>f. f\<lparr>position :=
                      vec_add (centerFlotation b)
                        (rotateAboutX (- tiltX b)
                           (rotateAboutZ (- tiltZ b)
                              (vec_sub (restPosition f) (centerFlotation b)))),
                    rotation := (rotation f)\<lparr>vec_x := - tiltX b, vec_z := - tiltZ b\<rparr>\<rparr>)
           (floats b)\<rparr> \<and>
   (tiltX b = 0 \<and> tiltZ b = 0 \<longrightarrow>
      map position (floats (applyTiltToFloats b)) = map restPosition (floats b) \<and>
      (map position (floats b) = map restPosition (floats b) \<longrightarrow>
         map position (floats (applyTiltToFloats b)) = map position (floats b)))"
proof (intro conjI impI)
  show "applyTiltToFloats b =
     b\<lparr>floats :=
         map (\<lambda>f. f\<lparr>position :=
                      vec_add (centerFlotation b)
                        (rotateAboutX (- tiltX b)
                           (rotateAboutZ (- tiltZ b)
                              (vec_sub (restPosition f) (centerFlotation b)))),
                    rotation := (rotation f)\<lparr>vec_x := - tiltX b, vec_z := - tiltZ b\<rparr>\<rparr>)
           (floats b)\<rparr>"
    unfolding applyTiltToFloats_def applyTiltToFloat_eq [abs_def] by (rule refl)
next
  assume z: "tiltX b = 0 \<and> tiltZ b = 0"
  then show r: "map position (floats (applyTiltToFloats b)) = map restPosition (floats b)"
    by (simp add: applyTiltToFloats_def applyTiltToFloat_level)
  assume "map position (floats b) = map restPosition (floats b)"
  with r show "map position (floats (applyTiltToFloats b)) = map position (floats b)"
    by simp
qed

theorem applyTiltToFloats_rotation_witness:
  "map position (floats (applyTiltToFloats (addFloat (addFloat Barge_empty)))) =
     [Vector3_new 0 (74 / 39) 0, Vector3_new 20 (74 / 39) 0] \<and>
   map rotation (floats (applyTiltToFloats (addFloat (addFloat Barge_empty)))) =
     [Vector3_new 0 0 0, Vector3_new 0 0 0]"
  using applyTiltToFloats_rotation [of "addFloat (addFloat Barge_empty)"]
  by (simp add: model_defs)

section \<open>Adding floats\<close>

lemma addFloat_floats:
  "floats (addFloat b) =
     floats b @
     [(Float_new (nextFloatId b))
        \<lparr>position :=
           Vector3_new
             (if floats b = [] then 0
              else vec_x (position (last (floats b))) + width (last (floats b)) / 2 + 10)
             (- calculateDraft (Float_new (nextFloatId b)) + 7 / 2)
             (if floats b = [] then 0 else vec_z (position (last (floats b)))),
         restPosition :=
           Vector3_new
             (if floats b = [] then 0
              else vec_x (position (last (floats b))) + width (last (floats b)) / 2 + 10)
             (- calculateDraft (Float_new (nextFloatId b)) + 7 / 2)
             (if floats b = [] then 0 else vec_z (position (last (floats b))))\<rparr>]"
  by (simp add: addFloat_def Let_def Float_new_def)










section \<open>The update pipeline\<close>

lemma calculateCenterFlotation_other:
  "centerFlotation (calculateCenterFlotation b) =
     (if floats b = [] then centerFlotation b
      else Vector3_new
        (sum_list (map (\<lambda>f. vec_x (position f) * footprintArea f) (floats b)) /
         sum_list (map footprintArea (floats b)))
        0
        (sum_list (map (\<lambda>f. vec_z (position f) * footprintArea f) (floats b)) /
         sum_list (map footprintArea (floats b))))"
  by (simp add: calculateCenterFlotation_eq calculateCenterFlotation_empty)

lemma calculateTilt_fields [simp]:
  "floats (calculateTilt b) = floats b"
  "items (calculateTilt b) = items b"
  "centerFlotation (calculateTilt b) = centerFlotation b"
  "nextFloatId (calculateTilt b) = nextFloatId b"
  by (simp_all add: calculateTilt_def Let_def)

lemma applyTiltToFloats_fields [simp]:
  "floats (applyTiltToFloats b) = map (applyTiltToFloat b) (floats b)"
  "items (applyTiltToFloats b) = items b"
  "centerFlotation (applyTiltToFloats b) = centerFlotation b"
  "nextFloatId (applyTiltToFloats b) = nextFloatId b"
  "tiltX (applyTiltToFloats b) = tiltX b"
  "tiltZ (applyTiltToFloats b) = tiltZ b"
  by (simp_all add: applyTiltToFloats_def)

lemma applyTiltToFloat_fields [simp]:
  "width (applyTiltToFloat b f) = width f"
  "height (applyTiltToFloat b f) = height f"
  "depth (applyTiltToFloat b f) = depth f"
  "id' (applyTiltToFloat b f) = id' f"
  "weight (applyTiltToFloat b f) = weight f"
  "waterDensity (applyTiltToFloat b f) = waterDensity f"
  "restPosition (applyTiltToFloat b f) = restPosition f"
  by (simp_all add: applyTiltToFloat_def Let_def)

lemma updateItemPosition_ok:
  "floats b \<noteq> [] \<Longrightarrow>
   \<exists>item'. updateItemPosition b item = Inr item' \<and>
     vec_x (position item') = vec_x (position item) \<and>
     vec_z (position item') = vec_z (position item) \<and>
     width item' = width item \<and> height item' = height item \<and> depth item' = depth item"
  by (cases "floats b") (simp_all add: updateItemPosition_def Let_def)

lemma updateItems_ok:
  "floats b \<noteq> [] \<Longrightarrow>
   \<exists>its'. updateItems b its = Inr its' \<and> length its' = length its \<and>
     map (\<lambda>i. vec_x (position i)) its' = map (\<lambda>i. vec_x (position i)) its \<and>
     map (\<lambda>i. vec_z (position i)) its' = map (\<lambda>i. vec_z (position i)) its"
proof (induction its)
  case Nil
  show ?case by simp
next
  case (Cons item its)
  from Cons.prems obtain item' where
    i: "updateItemPosition b item = Inr item'"
       "vec_x (position item') = vec_x (position item)"
       "vec_z (position item') = vec_z (position item)"
    using updateItemPosition_ok [of b item] by blast
  from Cons obtain its' where
    r: "updateItems b its = Inr its'" "length its' = length its"
       "map (\<lambda>i. vec_x (position i)) its' = map (\<lambda>i. vec_x (position i)) its"
       "map (\<lambda>i. vec_z (position i)) its' = map (\<lambda>i. vec_z (position i)) its"
    by blast
  show ?case using i r by simp
qed

text \<open>
  With a float 0, \<^verbatim>\<open>update\<close> returns: the centre and the tilt are those of the first
  two stages, the floats are the old ones with the tilt applied, and the items keep their
  number and their x and z.
\<close>

lemma update_ok:
  assumes "floats b \<noteq> []"
  shows "\<exists>b'. update b = Inr b' \<and>
     floats b' =
       map (applyTiltToFloat (calculateTilt (calculateCenterFlotation b))) (floats b) \<and>
     centerFlotation b' = centerFlotation (calculateCenterFlotation b) \<and>
     tiltX b' = tiltX (calculateTilt (calculateCenterFlotation b)) \<and>
     tiltZ b' = tiltZ (calculateTilt (calculateCenterFlotation b)) \<and>
     nextFloatId b' = nextFloatId b \<and>
     length (items b') = length (items b) \<and>
     map (\<lambda>i. vec_x (position i)) (items b') = map (\<lambda>i. vec_x (position i)) (items b) \<and>
     map (\<lambda>i. vec_z (position i)) (items b') = map (\<lambda>i. vec_z (position i)) (items b)"
proof -
  let ?t = "applyTiltToFloats (calculateTilt (calculateCenterFlotation b))"
  have "floats ?t \<noteq> []" using assms by simp
  then obtain its' where
    r: "updateItems ?t (items b) = Inr its'" "length its' = length (items b)"
       "map (\<lambda>i. vec_x (position i)) its' = map (\<lambda>i. vec_x (position i)) (items b)"
       "map (\<lambda>i. vec_z (position i)) its' = map (\<lambda>i. vec_z (position i)) (items b)"
    using updateItems_ok [of ?t "items b"] by blast
  have u: "update b = Inr (?t\<lparr>items := its'\<rparr>)"
    using r(1) by (simp add: update_def updateItemPositions_def)
  show ?thesis
    unfolding u using r(2-4) by simp
qed

section \<open>Moving an item\<close>

lemma map_nth_eq:
  "map g xs = map g ys \<Longrightarrow> k < length ys \<Longrightarrow> g (xs ! k) = g (ys ! k)"
  by (metis length_map nth_map)

lemma moveItem_ok:
  assumes f: "floats b = mainFloat # fs"
      and i: "0 \<le> itemIndex" "itemIndex < int (length (items b))"
  shows "\<exists>b'. moveItem itemIndex x z b = Inr b' \<and>
     length (items b') = length (items b) \<and>
     vec_x (position (items b' ! nat itemIndex)) =
       max (- (width mainFloat / 2 - 1)) (min (width mainFloat / 2 - 1) x) \<and>
     vec_z (position (items b' ! nat itemIndex)) =
       max (- (depth mainFloat / 2 - 1)) (min (depth mainFloat / 2 - 1) z)"
proof -
  let ?item = "(items b ! nat itemIndex)\<lparr>position :=
      (position (items b ! nat itemIndex))
        \<lparr>vec_x := max (- (width mainFloat / 2 - 1)) (min (width mainFloat / 2 - 1) x),
         vec_z := max (- (depth mainFloat / 2 - 1)) (min (depth mainFloat / 2 - 1) z)\<rparr>\<rparr>"
  let ?s = "b\<lparr>items := (items b)[nat itemIndex := ?item]\<rparr>"
  have k: "nat itemIndex < length (items b)" using i by linarith
  have m: "moveItem itemIndex x z b = update ?s"
    using f i by (simp add: moveItem_def Let_def)
  have "floats ?s \<noteq> []" using f by simp
  then obtain b' where
    u: "update ?s = Inr b'" "length (items b') = length (items ?s)"
       "map (\<lambda>i. vec_x (position i)) (items b') = map (\<lambda>i. vec_x (position i)) (items ?s)"
       "map (\<lambda>i. vec_z (position i)) (items b') = map (\<lambda>i. vec_z (position i)) (items ?s)"
    using update_ok [of ?s] by blast
  have kx: "vec_x (position (items b' ! nat itemIndex)) =
            vec_x (position (items ?s ! nat itemIndex))"
    using map_nth_eq [OF u(3)] k by simp
  have kz: "vec_z (position (items b' ! nat itemIndex)) =
            vec_z (position (items ?s ! nat itemIndex))"
    using map_nth_eq [OF u(4)] k by simp
  show ?thesis
    using m u(1,2) kx kz k by simp
qed

lemma moveItem_update:
  assumes "floats b = mainFloat # fs" "0 \<le> itemIndex" "itemIndex < int (length (items b))"
  shows "moveItem itemIndex x z b =
     update (b\<lparr>items := (items b)[nat itemIndex :=
       (items b ! nat itemIndex)\<lparr>position :=
         (position (items b ! nat itemIndex))
           \<lparr>vec_x := max (- (width mainFloat / 2 - 1)) (min (width mainFloat / 2 - 1) x),
            vec_z := max (- (depth mainFloat / 2 - 1)) (min (depth mainFloat / 2 - 1) z)\<rparr>\<rparr>]\<rparr>)"
  using assms by (simp add: moveItem_def Let_def)

text \<open>
  C6, as the code has it. On a barge with a float 0 that is at least 2 wide and 2 deep,
  \<^verbatim>\<open>moveItem\<close> with a valid index returns without an exception; it is
  \<^verbatim>\<open>update\<close> run on the barge with the item's x and z overwritten by the clamped
  values; and in the result the item's x lies in [-(width/2 - 1), width/2 - 1]: it is
  width/2 - 1 for a request at or beyond that bound, -(width/2 - 1) for one at or below
  the lower bound, and the request itself in between. The same holds for z with the depth.
\<close>

theorem moveItem_clamps:
  assumes "floats b = mainFloat # fs"
      and "0 \<le> itemIndex" and "itemIndex < int (length (items b))"
      and "2 \<le> width mainFloat" and "2 \<le> depth mainFloat"
  shows "\<exists>b'. moveItem itemIndex x z b = Inr b' \<and>
     moveItem itemIndex x z b =
       update (b\<lparr>items := (items b)[nat itemIndex :=
         (items b ! nat itemIndex)\<lparr>position :=
           (position (items b ! nat itemIndex))
             \<lparr>vec_x := max (- (width mainFloat / 2 - 1)) (min (width mainFloat / 2 - 1) x),
              vec_z := max (- (depth mainFloat / 2 - 1)) (min (depth mainFloat / 2 - 1) z)\<rparr>\<rparr>]\<rparr>) \<and>
     - (width mainFloat / 2 - 1) \<le> vec_x (position (items b' ! nat itemIndex)) \<and>
     vec_x (position (items b' ! nat itemIndex)) \<le> width mainFloat / 2 - 1 \<and>
     (width mainFloat / 2 - 1 \<le> x \<longrightarrow>
        vec_x (position (items b' ! nat itemIndex)) = width mainFloat / 2 - 1) \<and>
     (x \<le> - (width mainFloat / 2 - 1) \<longrightarrow>
        vec_x (position (items b' ! nat itemIndex)) = - (width mainFloat / 2 - 1)) \<and>
     (- (width mainFloat / 2 - 1) \<le> x \<and> x \<le> width mainFloat / 2 - 1 \<longrightarrow>
        vec_x (position (items b' ! nat itemIndex)) = x) \<and>
     - (depth mainFloat / 2 - 1) \<le> vec_z (position (items b' ! nat itemIndex)) \<and>
     vec_z (position (items b' ! nat itemIndex)) \<le> depth mainFloat / 2 - 1 \<and>
     (depth mainFloat / 2 - 1 \<le> z \<longrightarrow>
        vec_z (position (items b' ! nat itemIndex)) = depth mainFloat / 2 - 1) \<and>
     (z \<le> - (depth mainFloat / 2 - 1) \<longrightarrow>
        vec_z (position (items b' ! nat itemIndex)) = - (depth mainFloat / 2 - 1)) \<and>
     (- (depth mainFloat / 2 - 1) \<le> z \<and> z \<le> depth mainFloat / 2 - 1 \<longrightarrow>
        vec_z (position (items b' ! nat itemIndex)) = z)"
proof -
  obtain b' where r:
    "moveItem itemIndex x z b = Inr b'"
    "vec_x (position (items b' ! nat itemIndex)) =
       max (- (width mainFloat / 2 - 1)) (min (width mainFloat / 2 - 1) x)"
    "vec_z (position (items b' ! nat itemIndex)) =
       max (- (depth mainFloat / 2 - 1)) (min (depth mainFloat / 2 - 1) z)"
    using moveItem_ok [OF assms(1-3), of x z] by blast
  have hw: "0 \<le> width mainFloat / 2 - 1" using assms(4) by simp
  have hd: "0 \<le> depth mainFloat / 2 - 1" using assms(5) by simp
  have u: "moveItem itemIndex x z b =
       update (b\<lparr>items := (items b)[nat itemIndex :=
         (items b ! nat itemIndex)\<lparr>position :=
           (position (items b ! nat itemIndex))
             \<lparr>vec_x := max (- (width mainFloat / 2 - 1)) (min (width mainFloat / 2 - 1) x),
              vec_z := max (- (depth mainFloat / 2 - 1)) (min (depth mainFloat / 2 - 1) z)\<rparr>\<rparr>]\<rparr>)"
    by (rule moveItem_update [OF assms(1-3)])
  have cx: "- (width mainFloat / 2 - 1) \<le> vec_x (position (items b' ! nat itemIndex)) \<and>
     vec_x (position (items b' ! nat itemIndex)) \<le> width mainFloat / 2 - 1 \<and>
     (width mainFloat / 2 - 1 \<le> x \<longrightarrow>
        vec_x (position (items b' ! nat itemIndex)) = width mainFloat / 2 - 1) \<and>
     (x \<le> - (width mainFloat / 2 - 1) \<longrightarrow>
        vec_x (position (items b' ! nat itemIndex)) = - (width mainFloat / 2 - 1)) \<and>
     (- (width mainFloat / 2 - 1) \<le> x \<and> x \<le> width mainFloat / 2 - 1 \<longrightarrow>
        vec_x (position (items b' ! nat itemIndex)) = x)"
    unfolding r(2) using hw by (auto simp: max_def min_def)
  have cz: "- (depth mainFloat / 2 - 1) \<le> vec_z (position (items b' ! nat itemIndex)) \<and>
     vec_z (position (items b' ! nat itemIndex)) \<le> depth mainFloat / 2 - 1 \<and>
     (depth mainFloat / 2 - 1 \<le> z \<longrightarrow>
        vec_z (position (items b' ! nat itemIndex)) = depth mainFloat / 2 - 1) \<and>
     (z \<le> - (depth mainFloat / 2 - 1) \<longrightarrow>
        vec_z (position (items b' ! nat itemIndex)) = - (depth mainFloat / 2 - 1)) \<and>
     (- (depth mainFloat / 2 - 1) \<le> z \<and> z \<le> depth mainFloat / 2 - 1 \<longrightarrow>
        vec_z (position (items b' ! nat itemIndex)) = z)"
    unfolding r(3) using hd by (auto simp: max_def min_def)
  show ?thesis
    using r(1) u cx cz by blast
qed

theorem moveItem_clamps_witness:
  "\<exists>b'. moveItem 0 15 (- 7) (projr Barge_new) = Inr b' \<and>
     vec_x (position (items b' ! 0)) = 9 \<and> vec_z (position (items b' ! 0)) = - 4"
  using moveItem_clamps
    [of "projr Barge_new"
        "(Float_new 1)\<lparr>position := Vector3_new 0 (74 / 39) 0,
                        restPosition := Vector3_new 0 (74 / 39) 0\<rparr>" "[]" 0 15 "- 7"]
  by (simp add: Barge_new_eq Float_new_def) blast

section \<open>Editing float 0\<close>

lemma editWidth_fields [simp]:
  "width (fst (editWidth v s)) = accepted v (width (fst s))"
  "depth (fst (editWidth v s)) = depth (fst s)"
  "height (fst (editWidth v s)) = height (fst s)"
  "weight (fst (editWidth v s)) = weight (fst s)"
  "waterDensity (fst (editWidth v s)) = waterDensity (fst s)"
  "id' (fst (editWidth v s)) = id' (fst s)"
  "restPosition (fst (editWidth v s)) = restPosition (fst s)"
  by (simp_all add: editWidth_def accepted_def split: prod.split option.split)

lemma editDepth_fields [simp]:
  "width (fst (editDepth v s)) = width (fst s)"
  "depth (fst (editDepth v s)) = accepted v (depth (fst s))"
  "height (fst (editDepth v s)) = height (fst s)"
  "weight (fst (editDepth v s)) = weight (fst s)"
  "waterDensity (fst (editDepth v s)) = waterDensity (fst s)"
  "id' (fst (editDepth v s)) = id' (fst s)"
  "restPosition (fst (editDepth v s)) = restPosition (fst s)"
  by (simp_all add: editDepth_def accepted_def split: prod.split option.split)

lemma editHeight_fields [simp]:
  "width (fst (editHeight v s)) = width (fst s)"
  "depth (fst (editHeight v s)) = depth (fst s)"
  "height (fst (editHeight v s)) = accepted v (height (fst s))"
  "weight (fst (editHeight v s)) = weight (fst s)"
  "waterDensity (fst (editHeight v s)) = waterDensity (fst s)"
  "id' (fst (editHeight v s)) = id' (fst s)"
  "restPosition (fst (editHeight v s)) = restPosition (fst s)"
  by (simp_all add: editHeight_def accepted_def split: prod.split option.split)

lemma editWeight_fields [simp]:
  "width (fst (editWeight v s)) = width (fst s)"
  "depth (fst (editWeight v s)) = depth (fst s)"
  "height (fst (editWeight v s)) = height (fst s)"
  "weight (fst (editWeight v s)) = accepted v (weight (fst s))"
  "waterDensity (fst (editWeight v s)) = waterDensity (fst s)"
  "id' (fst (editWeight v s)) = id' (fst s)"
  "restPosition (fst (editWeight v s)) = restPosition (fst s)"
  by (simp_all add: editWeight_def accepted_def split: prod.split option.split)

lemma editPositionX_fields [simp]:
  "width (editPositionX v f) = width f"
  "depth (editPositionX v f) = depth f"
  "height (editPositionX v f) = height f"
  "weight (editPositionX v f) = weight f"
  "waterDensity (editPositionX v f) = waterDensity f"
  "id' (editPositionX v f) = id' f"
  "restPosition (editPositionX v f) = restPosition f"
  by (simp_all add: editPositionX_def split: option.split)

lemma editPositionZ_fields [simp]:
  "width (editPositionZ v f) = width f"
  "depth (editPositionZ v f) = depth f"
  "height (editPositionZ v f) = height f"
  "weight (editPositionZ v f) = weight f"
  "waterDensity (editPositionZ v f) = waterDensity f"
  "id' (editPositionZ v f) = id' f"
  "restPosition (editPositionZ v f) = restPosition f"
  by (simp_all add: editPositionZ_def split: option.split)

lemma editPositionY_fields [simp]:
  "width (editPositionY r m y f) = width f"
  "depth (editPositionY r m y f) = depth f"
  "height (editPositionY r m y f) = height f"
  "weight (editPositionY r m y f) = weight f"
  "waterDensity (editPositionY r m y f) = waterDensity f"
  "id' (editPositionY r m y f) = id' f"
  "restPosition (editPositionY r m y f) = restPosition f"
  by (simp_all add: editPositionY_def Let_def split: option.split)

text \<open>
  With a float 0 the edit ends in \<^verbatim>\<open>barge.update()\<close> on a barge whose float 0 has
  the accepted attributes and whose other floats are untouched.
\<close>

lemma updateFloatProperties_edit:
  assumes "floats b = float # rest"
  shows "\<exists>f. updateFloatProperties inp b =
                update (calculateCenterFlotation (b\<lparr>floats := f # rest\<rparr>)) \<and>
     width f = accepted (floatLength inp) (width float) \<and>
     depth f = accepted (floatWidth inp) (depth float) \<and>
     height f = accepted (floatHeight inp) (height float) \<and>
     weight f = accepted (floatWeight inp) (weight float) \<and>
     waterDensity f = waterDensity float \<and> id' f = id' float \<and>
     restPosition f = restPosition float"
proof -
  obtain f1 r where e:
    "editWeight (floatWeight inp)
       (editHeight (floatHeight inp)
          (editDepth (floatWidth inp)
             (editWidth (floatLength inp) (float, False)))) = (f1, r)"
    by (cases "editWeight (floatWeight inp)
                 (editHeight (floatHeight inp)
                    (editDepth (floatWidth inp)
                       (editWidth (floatLength inp) (float, False))))")
  have f1: "f1 = fst (editWeight (floatWeight inp)
                   (editHeight (floatHeight inp)
                      (editDepth (floatWidth inp)
                         (editWidth (floatLength inp) (float, False)))))"
    by (simp add: e)
  let ?f = "editPositionY r (posYActive inp) (floatPosY inp)
              (editPositionZ (floatPosZ inp) (editPositionX (floatPosX inp) f1))"
  have "updateFloatProperties inp b =
          update (calculateCenterFlotation (b\<lparr>floats := ?f # rest\<rparr>))"
    using assms by (simp add: updateFloatProperties_def e Let_def)
  moreover have "width ?f = accepted (floatLength inp) (width float)"
     "depth ?f = accepted (floatWidth inp) (depth float)"
     "height ?f = accepted (floatHeight inp) (height float)"
     "weight ?f = accepted (floatWeight inp) (weight float)"
     "waterDensity ?f = waterDensity float" "id' ?f = id' float"
     "restPosition ?f = restPosition float"
    by (simp_all add: f1)
  ultimately show ?thesis by blast
qed

lemma updateFloatProperties_ok:
  assumes "floats b = float # rest"
  shows "\<exists>b' float'. updateFloatProperties inp b = Inr b' \<and>
     floats b' = float' # map (applyTiltToFloat b') rest \<and>
     width float' = accepted (floatLength inp) (width float) \<and>
     depth float' = accepted (floatWidth inp) (depth float) \<and>
     height float' = accepted (floatHeight inp) (height float) \<and>
     weight float' = accepted (floatWeight inp) (weight float) \<and>
     waterDensity float' = waterDensity float \<and> id' float' = id' float \<and>
     restPosition float' = restPosition float \<and>
     nextFloatId b' = nextFloatId b \<and>
     length (items b') = length (items b) \<and>
     map (\<lambda>i. vec_x (position i)) (items b') = map (\<lambda>i. vec_x (position i)) (items b) \<and>
     map (\<lambda>i. vec_z (position i)) (items b') = map (\<lambda>i. vec_z (position i)) (items b)"
proof -
  obtain f where f:
    "updateFloatProperties inp b = update (calculateCenterFlotation (b\<lparr>floats := f # rest\<rparr>))"
    "width f = accepted (floatLength inp) (width float)"
    "depth f = accepted (floatWidth inp) (depth float)"
    "height f = accepted (floatHeight inp) (height float)"
    "weight f = accepted (floatWeight inp) (weight float)"
    "waterDensity f = waterDensity float" "id' f = id' float"
    "restPosition f = restPosition float"
    using updateFloatProperties_edit [OF assms, of inp] by blast
  let ?s = "calculateCenterFlotation (b\<lparr>floats := f # rest\<rparr>)"
  let ?t = "calculateTilt (calculateCenterFlotation ?s)"
  have "floats ?s \<noteq> []" by simp
  then obtain b' where u:
    "update ?s = Inr b'"
    "floats b' = map (applyTiltToFloat ?t) (floats ?s)"
    "centerFlotation b' = centerFlotation (calculateCenterFlotation ?s)"
    "tiltX b' = tiltX ?t" "tiltZ b' = tiltZ ?t"
    "nextFloatId b' = nextFloatId ?s"
    "length (items b') = length (items ?s)"
    "map (\<lambda>i. vec_x (position i)) (items b') = map (\<lambda>i. vec_x (position i)) (items ?s)"
    "map (\<lambda>i. vec_z (position i)) (items b') = map (\<lambda>i. vec_z (position i)) (items ?s)"
    using update_ok [of ?s] by blast
  have same: "applyTiltToFloat ?t = applyTiltToFloat b'"
    by (rule ext) (simp add: applyTiltToFloat_def u(3,4,5))
  have fl: "floats b' = applyTiltToFloat b' f # map (applyTiltToFloat b') rest"
    using u(2) same by simp
  show ?thesis
    using f u(1,6-9) fl by simp
qed

text \<open>
  C9. An edit of float 0 through the property panel, on a barge that has a float 0, ends
  without an exception, and a new width, depth, height or weight that is not a number or
  is not positive leaves that attribute of float 0 as it was. Whatever the form holds, an
  attribute that was positive stays positive, and the attributes of the other floats are
  not touched. (A constructed barge always has its float 0, see \<open>reachable_nonempty\<close>.)
\<close>

theorem updateFloatProperties_rejects:
  assumes "floats b = float # rest"
  shows "\<exists>b' float' rest'.
     updateFloatProperties inp b = Inr b' \<and> floats b' = float' # rest' \<and>
     (nonPositiveOrNaN (floatLength inp) \<longrightarrow> width float' = width float) \<and>
     (nonPositiveOrNaN (floatWidth inp) \<longrightarrow> depth float' = depth float) \<and>
     (nonPositiveOrNaN (floatHeight inp) \<longrightarrow> height float' = height float) \<and>
     (nonPositiveOrNaN (floatWeight inp) \<longrightarrow> weight float' = weight float) \<and>
     (0 < width float \<longrightarrow> 0 < width float') \<and>
     (0 < depth float \<longrightarrow> 0 < depth float') \<and>
     (0 < height float \<longrightarrow> 0 < height float') \<and>
     (0 < weight float \<longrightarrow> 0 < weight float') \<and>
     map width rest' = map width rest \<and> map depth rest' = map depth rest \<and>
     map height rest' = map height rest \<and> map weight rest' = map weight rest"
proof -
  obtain b' float' where r:
    "updateFloatProperties inp b = Inr b'"
    "floats b' = float' # map (applyTiltToFloat b') rest"
    "width float' = accepted (floatLength inp) (width float)"
    "depth float' = accepted (floatWidth inp) (depth float)"
    "height float' = accepted (floatHeight inp) (height float)"
    "weight float' = accepted (floatWeight inp) (weight float)"
    using updateFloatProperties_ok [OF assms, of inp] by blast
  have rej: "\<And>v old. nonPositiveOrNaN v \<Longrightarrow> accepted v old = old"
    by (auto simp: nonPositiveOrNaN_def accepted_def split: option.splits)
  have pos: "\<And>v old. 0 < old \<Longrightarrow> 0 < accepted v old"
    by (auto simp: accepted_def split: option.splits)
  show ?thesis
    using r rej pos by (simp add: comp_def)
qed

theorem updateFloatProperties_rejects_witness:
  "\<exists>b' float'.
     updateFloatProperties
       \<lparr>floatLength = None, floatWidth = Some 0, floatHeight = Some (- 3),
        floatWeight = Some 100, floatPosX = None, floatPosY = None, floatPosZ = None,
        posYActive = False\<rparr> (projr Barge_new) = Inr b' \<and>
     floats b' = [float'] \<and>
     width float' = 20 \<and> depth float' = 10 \<and> height float' = 7 \<and> 0 < weight float'"
  using updateFloatProperties_rejects
    [of "projr Barge_new"
        "(Float_new 1)\<lparr>position := Vector3_new 0 (74 / 39) 0,
                        restPosition := Vector3_new 0 (74 / 39) 0\<rparr>" "[]"
        "\<lparr>floatLength = None, floatWidth = Some 0, floatHeight = Some (- 3),
          floatWeight = Some 100, floatPosX = None, floatPosY = None, floatPosZ = None,
          posYActive = False\<rparr>"]
  by (simp add: Barge_new_eq nonPositiveOrNaN_def Float_new_def) blast

text \<open>
  C6 as stated fails on a narrow float 0. The property panel accepts the length 1 for
  float 0; then width/2 - 1 = -1/2, and \<^verbatim>\<open>moveItem(0, 5, 0)\<close>, a request beyond
  that bound, leaves the item at x = 1/2: not at width/2 - 1, and above it.
\<close>

theorem moveItem_narrow_float_counterexample:
  "(case andThen Barge_new
           (updateFloatProperties
              \<lparr>floatLength = Some 1, floatWidth = Some 10, floatHeight = Some 7,
               floatWeight = Some 20000, floatPosX = Some 0, floatPosY = Some 1.9,
               floatPosZ = Some 0, posYActive = False\<rparr>) of
      Inl e \<Rightarrow> False
    | Inr b \<Rightarrow>
        (case moveItem 0 5 0 b of
           Inl e \<Rightarrow> False
         | Inr b' \<Rightarrow>
             width (floats b ! 0) / 2 - 1 = - 1 / 2 \<and>
             vec_x (position (items b' ! 0)) = 1 / 2 \<and>
             vec_x (position (items b' ! 0)) \<noteq> width (floats b ! 0) / 2 - 1 \<and>
             \<not> vec_x (position (items b' ! 0)) \<le> width (floats b ! 0) / 2 - 1))"
proof -
  let ?inp = "\<lparr>floatLength = Some 1, floatWidth = Some 10, floatHeight = Some 7,
               floatWeight = Some 20000, floatPosX = Some 0, floatPosY = Some 1.9,
               floatPosZ = Some 0, posYActive = False\<rparr>"
  let ?f = "(Float_new 1)\<lparr>position := Vector3_new 0 (74 / 39) 0,
                          restPosition := Vector3_new 0 (74 / 39) 0\<rparr>"
  let ?b0 = "\<lparr>floats = [?f],
          items = [Item_new\<lparr>position := Vector3_new 0 (499 / 78) 0\<rparr>], nextFloatId = 2,
          centerFlotation = Vector3_new 0 0 0, tiltX = 0, tiltZ = 0\<rparr>"
  have "floats ?b0 = ?f # []" by simp
  from updateFloatProperties_ok [OF this, of ?inp]
  obtain b float' where b:
    "updateFloatProperties ?inp ?b0 = Inr b" "floats b = [float']"
    "width float' = 1" "depth float' = 10" "length (items b) = 1"
    by (auto simp: accepted_def Float_new_def)
  have i: "(0::int) \<le> 0" "(0::int) < int (length (items b))"
    using b(5) by simp_all
  have fl: "floats b = float' # []" using b(2) by simp
  from moveItem_ok [OF fl i, of 5 0]
  obtain b' where m:
    "moveItem 0 5 0 b = Inr b'" "vec_x (position (items b' ! 0)) = 1 / 2"
    using b(3,4) by auto
  show ?thesis
    using b m by (simp add: andThen_def Barge_new_eq)
qed

section \<open>The tilt after a move\<close>

lemma single_float_center:
  assumes "floats b = [f]" "width f = 20" "depth f = 10"
  shows "centerFlotation (calculateCenterFlotation b) =
           Vector3_new (vec_x (position f)) 0 (vec_z (position f))"
  using assms by (simp add: calculateCenterFlotation_other footprintArea_def)

text \<open>
  C8, as the code has it. On a barge whose only float is 20 by 10 with x = z = 0,
  \<^verbatim>\<open>moveItem(0, 10, 0)\<close> returns with item 0 at x = 9, z = 0 (the clamp at
  width/2 - 1), the centre of flotation at the origin, tiltZ = (9 / 10) * 0.05 = 9/200 and
  tiltX = 0. The angle 0.05 is what \<^verbatim>\<open>calculateTilt\<close> gives when item 0 stands at
  the offset (10, 0) from the centre.
\<close>

theorem moveItem_offset_ten:
  assumes "floats b = [f]" and "width f = 20" and "depth f = 10"
      and "vec_x (position f) = 0" and "vec_z (position f) = 0"
      and "items b = item # others"
  shows "(\<exists>b'. moveItem 0 10 0 b = Inr b' \<and>
            vec_x (position (items b' ! 0)) = 9 \<and> vec_z (position (items b' ! 0)) = 0 \<and>
            centerFlotation b' = Vector3_new 0 0 0 \<and>
            tiltZ b' = 9 / 200 \<and> tiltX b' = 0) \<and>
         (vec_x (position item) - vec_x (centerFlotation b) = 10 \<and>
          vec_z (position item) - vec_z (centerFlotation b) = 0 \<longrightarrow>
            tiltZ (calculateTilt b) = 0.05 \<and> tiltX (calculateTilt b) = 0)"
proof (intro conjI impI)
  let ?item = "item\<lparr>position := (position item)\<lparr>vec_x := 9, vec_z := 0\<rparr>\<rparr>"
  let ?s = "b\<lparr>items := ?item # others\<rparr>"
  have fl: "floats b = f # []" using assms(1) by simp
  have m: "moveItem 0 10 0 b = update ?s"
    using moveItem_update [OF fl, of 0 10 0] assms(2,3,6) by simp
  have c: "centerFlotation (calculateCenterFlotation ?s) = Vector3_new 0 0 0"
    using single_float_center [of ?s f] assms(1-5) by simp
  have i: "items (calculateCenterFlotation ?s) = ?item # others" by simp
  have t: "tiltZ (calculateTilt (calculateCenterFlotation ?s)) = 9 / 200"
          "tiltX (calculateTilt (calculateCenterFlotation ?s)) = 0"
    by (simp_all add: calculateTilt_eq [OF i] c Vector3_new_def)
  have "floats ?s \<noteq> []" using assms(1) by simp
  then obtain b' where u:
    "update ?s = Inr b'"
    "centerFlotation b' = centerFlotation (calculateCenterFlotation ?s)"
    "tiltX b' = tiltX (calculateTilt (calculateCenterFlotation ?s))"
    "tiltZ b' = tiltZ (calculateTilt (calculateCenterFlotation ?s))"
    "map (\<lambda>i. vec_x (position i)) (items b') = map (\<lambda>i. vec_x (position i)) (items ?s)"
    "map (\<lambda>i. vec_z (position i)) (items b') = map (\<lambda>i. vec_z (position i)) (items ?s)"
    using update_ok [of ?s] by blast
  have x: "vec_x (position (items b' ! 0)) = 9"
    using map_nth_eq [OF u(5), of 0] by simp
  have z: "vec_z (position (items b' ! 0)) = 0"
    using map_nth_eq [OF u(6), of 0] by simp
  show "\<exists>b'. moveItem 0 10 0 b = Inr b' \<and>
            vec_x (position (items b' ! 0)) = 9 \<and> vec_z (position (items b' ! 0)) = 0 \<and>
            centerFlotation b' = Vector3_new 0 0 0 \<and>
            tiltZ b' = 9 / 200 \<and> tiltX b' = 0"
    using m u(1-4) x z c t by simp
next
  assume "vec_x (position item) - vec_x (centerFlotation b) = 10 \<and>
          vec_z (position item) - vec_z (centerFlotation b) = 0"
  then show "tiltZ (calculateTilt b) = 0.05"
    by (simp add: calculateTilt_eq [OF assms(6)])
next
  assume "vec_x (position item) - vec_x (centerFlotation b) = 10 \<and>
          vec_z (position item) - vec_z (centerFlotation b) = 0"
  then show "tiltX (calculateTilt b) = 0"
    by (simp add: calculateTilt_eq [OF assms(6)])
qed

theorem moveItem_offset_ten_witness:
  "\<exists>b'. moveItem 0 10 0 (projr Barge_new) = Inr b' \<and>
     vec_x (position (items b' ! 0)) = 9 \<and> tiltZ b' = 9 / 200 \<and> tiltX b' = 0"
  using moveItem_offset_ten
    [of "projr Barge_new"
        "(Float_new 1)\<lparr>position := Vector3_new 0 (74 / 39) 0,
                        restPosition := Vector3_new 0 (74 / 39) 0\<rparr>"
        "Item_new\<lparr>position := Vector3_new 0 (499 / 78) 0\<rparr>" "[]"]
  by (simp add: Barge_new_eq Float_new_def Vector3_new_def) blast

text \<open>
  C8 as stated fails: on the constructed barge (one float, 20 by 10, at x = z = 0)
  \<^verbatim>\<open>moveItem(0, 10, 0)\<close> gives tiltZ = 9/200, not 0.05.
\<close>

theorem moveItem_offset_ten_counterexample:
  "(case Barge_new of
      Inl e \<Rightarrow> False
    | Inr b \<Rightarrow>
        (case moveItem 0 10 0 b of
           Inl e \<Rightarrow> False
         | Inr b' \<Rightarrow>
             map width (floats b) = [20] \<and> map depth (floats b) = [10] \<and>
             map (\<lambda>f. vec_x (position f)) (floats b) = [0] \<and>
             map (\<lambda>f. vec_z (position f)) (floats b) = [0] \<and>
             centerFlotation b = Vector3_new 0 0 0 \<and>
             tiltZ b' = 9 / 200 \<and> tiltZ b' \<noteq> 0.05))"
proof -
  let ?f = "(Float_new 1)\<lparr>position := Vector3_new 0 (74 / 39) 0,
                          restPosition := Vector3_new 0 (74 / 39) 0\<rparr>"
  let ?it = "Item_new\<lparr>position := Vector3_new 0 (499 / 78) 0\<rparr>"
  let ?b0 = "\<lparr>floats = [?f], items = [?it], nextFloatId = 2,
          centerFlotation = Vector3_new 0 0 0, tiltX = 0, tiltZ = 0\<rparr>"
  let ?s = "?b0\<lparr>items := [?it\<lparr>position := (position ?it)\<lparr>vec_x := 9, vec_z := 0\<rparr>\<rparr>]\<rparr>"
  have m: "moveItem 0 10 0 ?b0 = update ?s"
    by (simp add: moveItem_def Let_def Float_new_def)
  have c: "centerFlotation (calculateCenterFlotation ?s) = Vector3_new 0 0 0"
    using single_float_center [of ?s ?f] by (simp add: Float_new_def Vector3_new_def)
  have i: "items (calculateCenterFlotation ?s) =
             ?it\<lparr>position := (position ?it)\<lparr>vec_x := 9, vec_z := 0\<rparr>\<rparr> # []"
    by simp
  have t: "tiltZ (calculateTilt (calculateCenterFlotation ?s)) = 9 / 200"
    unfolding calculateTilt_eq [OF i] c by simp
  have "floats ?s \<noteq> []" by simp
  then obtain b' where u:
    "update ?s = Inr b'"
    "tiltZ b' = tiltZ (calculateTilt (calculateCenterFlotation ?s))"
    using update_ok [of ?s] by blast
  show ?thesis
    using m u t by (simp add: Barge_new_eq Float_new_def Vector3_new_def)
qed

section \<open>Running update twice\<close>

text \<open>
  C1 at a concrete barge. \<^verbatim>\<open>new Barge(scene)\<close>, then \<^verbatim>\<open>moveItem(0, 9, 0)\<close>,
  which writes the item's position and runs \<^verbatim>\<open>update()\<close> once, then
  \<^verbatim>\<open>update()\<close> again, as the next animation frame does. The first run computes the
  centre from the floats at rest (x = 0) and then moves float 0 to
  x = (74/39) * sin (9/200); the second run reads that position back as the centre of
  flotation. Centre and tiltZ after the second run differ from those after the first.
\<close>

theorem update_twice_differs:
  "(case Barge_new of
      Inl e \<Rightarrow> False
    | Inr b \<Rightarrow>
        (case moveItem 0 9 0 b of
           Inl e \<Rightarrow> False
         | Inr b1 \<Rightarrow>
             (case update b1 of
                Inl e \<Rightarrow> False
              | Inr b2 \<Rightarrow>
                  moveItem 0 9 0 b =
                    update (b\<lparr>items :=
                      [(items b ! 0)\<lparr>position :=
                         (position (items b ! 0))\<lparr>vec_x := 9, vec_z := 0\<rparr>\<rparr>]\<rparr>) \<and>
                  vec_x (centerFlotation b1) = 0 \<and>
                  vec_x (centerFlotation b2) = 74 / 39 * sin (9 / 200) \<and>
                  vec_x (centerFlotation b2) \<noteq> vec_x (centerFlotation b1) \<and>
                  tiltZ b1 = 9 / 200 \<and>
                  tiltZ b2 = (9 - 74 / 39 * sin (9 / 200)) / 200 \<and>
                  tiltZ b2 \<noteq> tiltZ b1 \<and>
                  b2 \<noteq> b1)))"
proof -
  let ?f = "(Float_new 1)\<lparr>position := Vector3_new 0 (74 / 39) 0,
                          restPosition := Vector3_new 0 (74 / 39) 0\<rparr>"
  let ?it = "Item_new\<lparr>position := Vector3_new 0 (499 / 78) 0\<rparr>"
  let ?b0 = "\<lparr>floats = [?f], items = [?it], nextFloatId = 2,
          centerFlotation = Vector3_new 0 0 0, tiltX = 0, tiltZ = 0\<rparr>"
  let ?it9 = "?it\<lparr>position := (position ?it)\<lparr>vec_x := 9, vec_z := 0\<rparr>\<rparr>"
  let ?s = "?b0\<lparr>items := [?it9]\<rparr>"
  let ?t = "calculateTilt (calculateCenterFlotation ?s)"
  have m: "moveItem 0 9 0 ?b0 = update ?s"
    by (simp add: moveItem_def Let_def Float_new_def)
  have c: "centerFlotation (calculateCenterFlotation ?s) = Vector3_new 0 0 0"
    using single_float_center [of ?s ?f] by (simp add: Float_new_def)
  have i: "items (calculateCenterFlotation ?s) = ?it9 # []"
    by simp
  have t: "tiltZ ?t = 9 / 200" "tiltX ?t = 0"
    unfolding calculateTilt_eq [OF i] c by simp_all
  have ct: "centerFlotation ?t = Vector3_new 0 0 0"
    using c by simp
  have "floats ?s \<noteq> []" by simp
  then obtain b1 where u1:
    "update ?s = Inr b1"
    "floats b1 = map (applyTiltToFloat ?t) (floats ?s)"
    "centerFlotation b1 = centerFlotation (calculateCenterFlotation ?s)"
    "tiltZ b1 = tiltZ ?t"
    "length (items b1) = length (items ?s)"
    "map (\<lambda>i. vec_x (position i)) (items b1) = map (\<lambda>i. vec_x (position i)) (items ?s)"
    using update_ok [of ?s] by blast
  have fl1: "floats b1 = [applyTiltToFloat ?t ?f]"
    using u1(2) by simp
  have px: "vec_x (position (applyTiltToFloat ?t ?f)) = 74 / 39 * sin (9 / 200)"
    unfolding applyTiltToFloat_def Let_def ct t by simp
  have wd: "width (applyTiltToFloat ?t ?f) = 20" "depth (applyTiltToFloat ?t ?f) = 10"
    by (simp_all add: Float_new_def)
  have c1: "vec_x (centerFlotation (calculateCenterFlotation b1)) = 74 / 39 * sin (9 / 200)"
    using single_float_center [OF fl1 wd] px by simp
  obtain it1 where it1: "items b1 = [it1]" "vec_x (position it1) = 9"
    using u1(5,6) by (cases "items b1") auto
  have i1: "items (calculateCenterFlotation b1) = it1 # []"
    using it1(1) by simp
  have t1: "tiltZ (calculateTilt (calculateCenterFlotation b1)) =
              (9 - 74 / 39 * sin (9 / 200)) / 200"
    unfolding calculateTilt_eq [OF i1] by (simp add: it1(2) c1)
  have "floats b1 \<noteq> []" using fl1 by simp
  then obtain b2 where u2:
    "update b1 = Inr b2"
    "centerFlotation b2 = centerFlotation (calculateCenterFlotation b1)"
    "tiltZ b2 = tiltZ (calculateTilt (calculateCenterFlotation b1))"
    using update_ok [of b1] by blast
  have "(0::real) < 9 / 200" "(9 / 200 :: real) < pi"
    using pi_ge_two by simp_all
  then have s: "0 < sin (9 / 200 :: real)"
    by (rule sin_gt_zero)
  have x1: "vec_x (centerFlotation b1) = 0"
    using u1(3) c by simp
  have x2: "vec_x (centerFlotation b2) = 74 / 39 * sin (9 / 200)"
    using u2(2) c1 by simp
  have z1: "tiltZ b1 = 9 / 200" using u1(4) t(1) by simp
  have z2: "tiltZ b2 = (9 - 74 / 39 * sin (9 / 200)) / 200"
    using u2(3) t1 by simp
  have ne: "vec_x (centerFlotation b2) \<noteq> vec_x (centerFlotation b1)"
    using x1 x2 s by simp
  have nz: "tiltZ b2 \<noteq> tiltZ b1"
    using z1 z2 s by simp
  have nb: "b2 \<noteq> b1" using ne by auto
  have ms: "moveItem 0 9 0 ?b0 =
              update (?b0\<lparr>items :=
                [(items ?b0 ! 0)\<lparr>position :=
                   (position (items ?b0 ! 0))\<lparr>vec_x := 9, vec_z := 0\<rparr>\<rparr>]\<rparr>)"
    using m by simp
  show ?thesis
    unfolding Barge_new_eq sum.case ms
    using u1(1) u2(1) x1 x2 z1 z2 ne nz nb by simp
qed

section \<open>Adding a float to a tilted barge\<close>


section \<open>A constructed barge is never empty\<close>

lemma updateItems_length:
  "updateItems b its = Inr its' \<Longrightarrow> length its' = length its"
proof (induction its arbitrary: its')
  case Nil
  then show ?case by simp
next
  case (Cons item its)
  then show ?case
    by (auto split: sum.splits)
qed

lemma updateItemPositions_result:
  assumes "updateItemPositions b = Inr b'"
  shows "floats b' = floats b \<and> length (items b') = length (items b)"
  using assms
  by (auto simp: updateItemPositions_def updateItems_length split: sum.splits)

lemma update_result:
  assumes "update b = Inr b'"
  shows "floats b' =
           map (applyTiltToFloat (calculateTilt (calculateCenterFlotation b))) (floats b) \<and>
         length (items b') = length (items b)"
  using updateItemPositions_result [of "applyTiltToFloats (calculateTilt (calculateCenterFlotation b))" b']
    assms
  by (simp add: update_def)

lemma moveItem_result:
  assumes "moveItem itemIndex x z b = Inr b'"
  shows "(\<exists>t. floats b' = map (applyTiltToFloat t) (floats b)) \<and>
         length (items b') = length (items b) \<or> b' = b"
proof (cases "itemIndex < int (length (items b))")
  case False
  then show ?thesis using assms by (simp add: moveItem_def)
next
  case True
  then obtain mainFloat fs s where
    "floats b = mainFloat # fs" "update s = Inr b'" "floats s = floats b"
    "length (items s) = length (items b)"
    using assms
    by (cases "floats b") (auto simp: moveItem_def Let_def split: if_splits)
  then show ?thesis
    using update_result [of s b'] by auto
qed

lemma updateFloatProperties_result:
  assumes "updateFloatProperties inp b = Inr b'"
  shows "length (floats b') = length (floats b) \<and> length (items b') = length (items b) \<and>
         ((\<forall>f \<in> set (floats b). positiveFloat f) \<longrightarrow> (\<forall>f \<in> set (floats b'). positiveFloat f))"
proof (cases "floats b")
  case Nil
  then show ?thesis using assms by (simp add: updateFloatProperties_def)
next
  case (Cons float rest)
  obtain c float' where r:
    "updateFloatProperties inp b = Inr c"
    "floats c = float' # map (applyTiltToFloat c) rest"
    "width float' = accepted (floatLength inp) (width float)"
    "depth float' = accepted (floatWidth inp) (depth float)"
    "height float' = accepted (floatHeight inp) (height float)"
    "weight float' = accepted (floatWeight inp) (weight float)"
    "waterDensity float' = waterDensity float"
    "length (items c) = length (items b)"
    using updateFloatProperties_ok [OF Cons, of inp] by blast
  have c: "c = b'" using r(1) assms by simp
  have pos: "\<And>v old. 0 < old \<Longrightarrow> 0 < accepted v old"
    by (auto simp: accepted_def split: option.splits)
  have "positiveFloat float \<Longrightarrow> positiveFloat float'"
    using r(3-7) pos by (simp add: positiveFloat_def)
  then show ?thesis
    using r(2,8) Cons unfolding c by (auto simp: positiveFloat_def)
qed

lemma step_lengths:
  assumes "step b c"
  shows "length (floats b) \<le> length (floats c) \<and> length (items b) \<le> length (items c)"
  using assms
proof cases
  case step_calculateCenterFlotation
  then show ?thesis by simp
next
  case step_addFloat
  then show ?thesis
    by (simp add: addFloat_floats) (simp add: addFloat_def Let_def split: prod.split)
next
  case step_addItem
  then show ?thesis
    by (cases "floats b") (auto simp: addItem_def Let_def)
next
  case step_calculateTilt
  then show ?thesis by simp
next
  case step_applyTiltToFloats
  then show ?thesis by simp
next
  case step_updateItemPositions
  then show ?thesis using updateItemPositions_result [of b c] by simp
next
  case step_update
  then show ?thesis using update_result [of b c] by simp
next
  case (step_moveItem itemIndex x z)
  then show ?thesis using moveItem_result [of itemIndex x z b c] by auto
next
  case (step_updateFloatProperties inp)
  then show ?thesis using updateFloatProperties_result [of inp b c] by simp
qed

lemma reachable_nonempty:
  "reachable b \<Longrightarrow> floats b \<noteq> [] \<and> items b \<noteq> []"
proof (induction rule: reachable.induct)
  case (reachable_new b)
  then show ?case by (auto simp: Barge_new_eq)
next
  case (reachable_step b c)
  then show ?case using step_lengths [of b c] by auto
qed

lemma positiveFloat_applyTilt [simp]:
  "positiveFloat (applyTiltToFloat t f) = positiveFloat f"
  by (simp add: positiveFloat_def)

lemma step_positive:
  assumes "step b c" and "\<forall>f \<in> set (floats b). positiveFloat f"
  shows "\<forall>f \<in> set (floats c). positiveFloat f"
  using assms(1)
proof cases
  case step_calculateCenterFlotation
  then show ?thesis using assms(2) by simp
next
  case step_addFloat
  then show ?thesis
    using assms(2) by (auto simp: addFloat_floats positiveFloat_def Float_new_def)
next
  case step_addItem
  then show ?thesis
    using assms(2) by (cases "floats b") (auto simp: addItem_def Let_def)
next
  case step_calculateTilt
  then show ?thesis using assms(2) by simp
next
  case step_applyTiltToFloats
  then show ?thesis using assms(2) by simp
next
  case step_updateItemPositions
  then show ?thesis using updateItemPositions_result [of b c] assms(2) by simp
next
  case step_update
  then show ?thesis using update_result [of b c] assms(2) by simp
next
  case (step_moveItem itemIndex x z)
  then show ?thesis using moveItem_result [of itemIndex x z b c] assms(2) by auto
next
  case (step_updateFloatProperties inp)
  then show ?thesis using updateFloatProperties_result [of inp b c] assms(2) by blast
qed

text \<open>
  Every float of a constructed barge has positive width, height, depth, weight and water
  density: the divisions of \<^verbatim>\<open>calculateDraft\<close> and \<^verbatim>\<open>calculateCenterFlotation\<close>
  never divide by zero there.
\<close>

lemma reachable_positive:
  "reachable b \<Longrightarrow> \<forall>f \<in> set (floats b). positiveFloat f"
proof (induction rule: reachable.induct)
  case (reachable_new b)
  then show ?case by (auto simp: Barge_new_eq positiveFloat_def Float_new_def)
next
  case (reachable_step b c)
  then show ?case using step_positive by blast
qed

text \<open>
  C10. The constructor returns a barge with one float and one item. No step (a method of
  \<^verbatim>\<open>Barge\<close> that returns, or an edit in the property panel) makes the list of floats
  or the list of items shorter. So every barge reached from the constructor has a float 0
  and an item 0: the guard \<^verbatim>\<open>floats.length === 0\<close> is false and the guard
  \<^verbatim>\<open>items.length > 0\<close> is true there, and \<^verbatim>\<open>addItem\<close>,
  \<^verbatim>\<open>updateItemPositions\<close>, \<^verbatim>\<open>update\<close> and \<^verbatim>\<open>moveItem\<close> on item 0 return
  without a TypeError.
\<close>

theorem barge_never_empty:
  "(\<exists>b0. Barge_new = Inr b0 \<and> length (floats b0) = 1 \<and> length (items b0) = 1) \<and>
   (step b c \<longrightarrow>
      length (floats b) \<le> length (floats c) \<and> length (items b) \<le> length (items c)) \<and>
   (reachable b \<longrightarrow>
      length (floats b) \<noteq> 0 \<and> 0 < length (items b) \<and>
      (\<exists>b'. addItem b = Inr b') \<and>
      (\<exists>b'. updateItemPositions b = Inr b') \<and>
      (\<exists>b'. update b = Inr b') \<and>
      (\<exists>b'. moveItem 0 x z b = Inr b'))"
proof (intro conjI impI)
  show "\<exists>b0. Barge_new = Inr b0 \<and> length (floats b0) = 1 \<and> length (items b0) = 1"
    by (simp add: Barge_new_eq)
next
  assume "step b c"
  then show "length (floats b) \<le> length (floats c)" "length (items b) \<le> length (items c)"
    using step_lengths by blast+
next
  assume r: "reachable b"
  then have ne: "floats b \<noteq> []" "items b \<noteq> []"
    using reachable_nonempty by blast+
  then obtain mainFloat fs where f: "floats b = mainFloat # fs"
    by (cases "floats b") auto
  show "length (floats b) \<noteq> 0" using ne by simp
  show "0 < length (items b)" using ne by simp
  show "\<exists>b'. addItem b = Inr b'"
    using f by (simp add: addItem_def Let_def)
  show "\<exists>b'. updateItemPositions b = Inr b'"
    using updateItems_ok [OF ne(1), of "items b"]
    by (auto simp: updateItemPositions_def)
  show "\<exists>b'. update b = Inr b'"
    using update_ok [OF ne(1)] by blast
  have "(0::int) \<le> 0" "(0::int) < int (length (items b))"
    using ne(2) by simp_all
  from moveItem_ok [OF f this, of x z]
  show "\<exists>b'. moveItem 0 x z b = Inr b'" by blast
qed

theorem barge_never_empty_witness:
  "length (floats (projr Barge_new)) \<le> length (floats (addFloat (projr Barge_new))) \<and>
   length (items (projr Barge_new)) \<le> length (items (addFloat (projr Barge_new))) \<and>
   length (floats (projr Barge_new)) \<noteq> 0 \<and>
   0 < length (items (projr Barge_new)) \<and>
   (\<exists>b'. addItem (projr Barge_new) = Inr b') \<and>
   (\<exists>b'. update (projr Barge_new) = Inr b') \<and>
   (\<exists>b'. moveItem 0 3 1 (projr Barge_new) = Inr b')"
proof -
  have r: "reachable (projr Barge_new)"
    using reachable_new [of "projr Barge_new"] by (simp add: Barge_new_eq)
  have s: "step (projr Barge_new) (addFloat (projr Barge_new))"
    by (rule step_addFloat)
  show ?thesis
    using barge_never_empty [of "projr Barge_new" "addFloat (projr Barge_new)" 3 1] r s
    by blast
qed

end
